theory Spec2Isabelle
  imports Complex_Main
begin

section \<open>JavaScript numbers\<close>

text \<open>
  The service is JavaScript, and its numbers are IEEE 754 binary64 values. A finite double
  is a rational of at most 53 significant bits: a multiple of the smallest subnormal
  number, \<open>1 / 2 ^ 1074\<close>, and below \<open>2 ^ 1024\<close>. Every operation computes the exact
  rational result and rounds it to the nearest double, ties to the even one, and to an
  infinity beyond the range. The sign of zero is not kept: the program has no division,
  and \<open>==\<close> does not tell \<open>-0\<close> from \<open>0\<close>.
\<close>

text \<open>The number of bits of a natural number.\<close>

fun bits :: "nat \<Rightarrow> nat" where
  "bits n = (if n = 0 then 0 else Suc (bits (n div 2)))"

declare bits.simps [simp del]

text \<open>Rounding to the nearest integer, ties to even.\<close>

definition rhe :: "rat \<Rightarrow> int" where
  "rhe x =
     (let n = \<lfloor>x\<rfloor>; f = x - of_int n
      in if f < 1 / 2 then n
         else if 1 / 2 < f then n + 1
         else if even n then n else n + 1)"

text \<open>
  Rounding a magnitude to 53 significant bits: in units of \<open>1 / 2 ^ 1074\<close> the magnitude
  is \<open>K\<close>; the bits of \<open>K\<close> beyond the first 53 are rounded away. Below \<open>2 ^ 53\<close> units
  (the subnormal numbers and the first binade) the spacing is one unit.
\<close>

definition round_abs :: "rat \<Rightarrow> rat" where
  "round_abs a =
     (let K = a * 2 ^ 1074;
          sh = bits (nat \<lfloor>K\<rfloor>) - 53;
          n = rhe (K / 2 ^ sh)
      in of_int n * 2 ^ sh / 2 ^ 1074)"

definition is_double :: "rat \<Rightarrow> bool" where
  "is_double q = (round_abs \<bar>q\<bar> = \<bar>q\<bar> \<and> \<bar>q\<bar> < 2 ^ 1024)"

typedef double = "{q. is_double q}"
  morphisms val dbl
  by (rule exI [of _ 0]) (simp add: is_double_def round_abs_def rhe_def)

datatype jsnum = Fin double | PInf | NInf | NaN

text \<open>The Number value for a rational: the nearest double, or an infinity.\<close>

definition to_double :: "rat \<Rightarrow> jsnum" where
  "to_double q =
     (let r = round_abs \<bar>q\<bar>
      in if 2 ^ 1024 \<le> r then (if q < 0 then NInf else PInf)
         else Fin (dbl (if q < 0 then - r else r)))"

text \<open>The mathematical value of a finite number.\<close>

fun js_value :: "jsnum \<Rightarrow> rat option" where
  "js_value (Fin d) = Some (val d)"
| "js_value n = None"

fun js_neg :: "jsnum \<Rightarrow> jsnum" where
  "js_neg (Fin a) = Fin (dbl (- val a))"
| "js_neg PInf = NInf"
| "js_neg NInf = PInf"
| "js_neg NaN = NaN"

fun js_add :: "jsnum \<Rightarrow> jsnum \<Rightarrow> jsnum" where
  "js_add NaN y = NaN"
| "js_add x NaN = NaN"
| "js_add (Fin a) (Fin b) = to_double (val a + val b)"
| "js_add (Fin a) y = y"
| "js_add x (Fin b) = x"
| "js_add PInf PInf = PInf"
| "js_add NInf NInf = NInf"
| "js_add PInf NInf = NaN"
| "js_add NInf PInf = NaN"

definition js_sub :: "jsnum \<Rightarrow> jsnum \<Rightarrow> jsnum" where
  "js_sub x y = js_add x (js_neg y)"

text \<open>An infinity times a finite value: the sign of the value decides, zero gives NaN.\<close>

definition inf_times :: "jsnum \<Rightarrow> rat \<Rightarrow> jsnum" where
  "inf_times i a = (if a = 0 then NaN else if 0 < a then i else js_neg i)"

fun js_mul :: "jsnum \<Rightarrow> jsnum \<Rightarrow> jsnum" where
  "js_mul NaN y = NaN"
| "js_mul x NaN = NaN"
| "js_mul (Fin a) (Fin b) = to_double (val a * val b)"
| "js_mul (Fin a) y = inf_times y (val a)"
| "js_mul x (Fin b) = inf_times x (val b)"
| "js_mul PInf y = y"
| "js_mul NInf y = js_neg y"

text \<open>\<open>x == y\<close> on numbers: NaN is equal to nothing, itself included.\<close>

definition js_eq :: "jsnum \<Rightarrow> jsnum \<Rightarrow> bool" where
  "js_eq x y = (x \<noteq> NaN \<and> y \<noteq> NaN \<and> x = y)"

section \<open>JavaScript values\<close>

text \<open>
  The values a parsed JSON body can hold, and \<open>undefined\<close> for a property that is absent.
  Strings are lists of characters below 256. An object is the list of its own properties.
\<close>

datatype jsval =
    JUndefined
  | JNull
  | JBool bool
  | JNum jsnum
  | JStr string
  | JArr "jsval list"
  | JObj "(string \<times> jsval) list"

text \<open>\<open>ToBoolean\<close>: the falsy values are undefined, null, false, 0, NaN and the empty string.\<close>

fun ToBoolean :: "jsval \<Rightarrow> bool" where
  "ToBoolean JUndefined = False"
| "ToBoolean JNull = False"
| "ToBoolean (JBool b) = b"
| "ToBoolean (JNum n) = (n \<noteq> NaN \<and> js_value n \<noteq> Some 0)"
| "ToBoolean (JStr s) = (s \<noteq> [])"
| "ToBoolean (JArr xs) = True"
| "ToBoolean (JObj fs) = True"

text \<open>\<open>a || b\<close> is \<open>a\<close> when \<open>a\<close> is truthy and \<open>b\<close> otherwise.\<close>

definition js_or :: "jsval \<Rightarrow> jsval \<Rightarrow> jsval" where
  "js_or a b = (if ToBoolean a then a else b)"

subsection \<open>Strings to numbers\<close>

definition is_ws :: "char \<Rightarrow> bool" where
  "is_ws c = ((of_char c :: nat) \<in> {9, 10, 11, 12, 13, 32, 160})"

definition trim :: "string \<Rightarrow> string" where
  "trim s = rev (dropWhile is_ws (rev (dropWhile is_ws s)))"

definition digit_of :: "nat \<Rightarrow> char \<Rightarrow> nat option" where
  "digit_of base c =
     (let n = (of_char c :: nat);
          d = (if 48 \<le> n \<and> n \<le> 57 then Some (n - 48)
               else if 97 \<le> n \<and> n \<le> 102 then Some (n - 87)
               else if 65 \<le> n \<and> n \<le> 70 then Some (n - 55)
               else None)
      in case d of None \<Rightarrow> None | Some v \<Rightarrow> if v < base then Some v else None)"

definition is_digit :: "char \<Rightarrow> bool" where
  "is_digit c = (digit_of 10 c \<noteq> None)"

fun digits_from :: "nat \<Rightarrow> nat \<Rightarrow> string \<Rightarrow> nat option" where
  "digits_from base acc [] = Some acc"
| "digits_from base acc (c # cs) =
     (case digit_of base c of
        None \<Rightarrow> None
      | Some d \<Rightarrow> digits_from base (acc * base + d) cs)"

text \<open>A non-empty run of digits of the base, and nothing else.\<close>

definition parse_digits :: "nat \<Rightarrow> string \<Rightarrow> nat option" where
  "parse_digits base s = (if s = [] then None else digits_from base 0 s)"

text \<open>The exponent part of a decimal literal: nothing, or \<open>e\<close>, an optional sign and digits.\<close>

definition ExponentPart :: "string \<Rightarrow> int option" where
  "ExponentPart s =
     (case s of
        [] \<Rightarrow> Some 0
      | c # t \<Rightarrow>
          if c = CHR ''e'' \<or> c = CHR ''E'' then
            (case t of
               [] \<Rightarrow> None
             | d # u \<Rightarrow>
                 if d = CHR ''+'' then map_option int (parse_digits 10 u)
                 else if d = CHR ''-'' then map_option (\<lambda>n. - int n) (parse_digits 10 u)
                 else map_option int (parse_digits 10 t))
          else None)"

definition scale10 :: "nat \<Rightarrow> int \<Rightarrow> rat" where
  "scale10 m e = (if 0 \<le> e then of_nat m * 10 ^ nat e else of_nat m / 10 ^ nat (- e))"

text \<open>The mathematical value of the literal is rounded to a double.\<close>

definition StrUnsignedDecimalLiteral :: "string \<Rightarrow> jsnum" where
  "StrUnsignedDecimalLiteral s =
     (if s = ''Infinity'' then PInf
      else
        let ip = takeWhile is_digit s;
            r1 = dropWhile is_digit s;
            fp = (case r1 of [] \<Rightarrow> [] | c # t \<Rightarrow> if c = CHR ''.'' then takeWhile is_digit t else []);
            r2 = (case r1 of [] \<Rightarrow> [] | c # t \<Rightarrow> if c = CHR ''.'' then dropWhile is_digit t else r1)
        in if ip = [] \<and> fp = [] then NaN
           else
             (case (digits_from 10 0 (ip @ fp), ExponentPart r2) of
                (Some m, Some e) \<Rightarrow> to_double (scale10 m (e - int (length fp)))
              | _ \<Rightarrow> NaN))"

definition StrDecimalLiteral :: "string \<Rightarrow> jsnum" where
  "StrDecimalLiteral s =
     (case s of
        [] \<Rightarrow> NaN
      | c # t \<Rightarrow>
          if c = CHR ''+'' then StrUnsignedDecimalLiteral t
          else if c = CHR ''-'' then js_neg (StrUnsignedDecimalLiteral t)
          else StrUnsignedDecimalLiteral s)"

text \<open>Hexadecimal, octal and binary integer literals: \<open>0x\<close>, \<open>0o\<close>, \<open>0b\<close> and digits, unsigned.\<close>

definition NonDecimalIntegerLiteral :: "string \<Rightarrow> nat option" where
  "NonDecimalIntegerLiteral s =
     (case s of
        z # p # t \<Rightarrow>
          if z \<noteq> CHR ''0'' then None
          else if p = CHR ''x'' \<or> p = CHR ''X'' then parse_digits 16 t
          else if p = CHR ''o'' \<or> p = CHR ''O'' then parse_digits 8 t
          else if p = CHR ''b'' \<or> p = CHR ''B'' then parse_digits 2 t
          else None
      | _ \<Rightarrow> None)"

text \<open>
  \<open>StringToNumber\<close>: white space is trimmed, the empty string is 0, a numeric literal is
  its value and any other string is NaN.
\<close>

definition StringToNumber :: "string \<Rightarrow> jsnum" where
  "StringToNumber s =
     (let t = trim s
      in if t = [] then to_double 0
         else case NonDecimalIntegerLiteral t of
                Some n \<Rightarrow> to_double (of_nat n)
              | None \<Rightarrow> StrDecimalLiteral t)"

subsection \<open>Values to numbers\<close>

datatype error = TypeError string | StorageFailure string

fun message :: "error \<Rightarrow> string" where
  "message (TypeError m) = m"
| "message (StorageFailure m) = m"

text \<open>
  \<open>Number(v)\<close> turns an object into a primitive first: it calls \<open>valueOf\<close> and then
  \<open>toString\<close>, each only if it is callable, and throws a TypeError when neither gives a
  primitive. For an object of a JSON body the inherited \<open>valueOf\<close> returns the object
  itself and the inherited \<open>toString\<close> returns \<open>[object Object]\<close>; no own property is
  callable, so the conversion throws exactly when the object has an own property
  \<open>toString\<close>, which hides the inherited one. An array is joined: its elements are turned
  into strings the same way (null as the empty string), so it throws when an element does.
\<close>

fun unconvertible :: "jsval \<Rightarrow> bool" where
  "unconvertible (JObj fs) = (''toString'' \<in> set (map fst fs))"
| "unconvertible (JArr xs) = list_ex unconvertible xs"
| "unconvertible v = False"

text \<open>
  The number of a value that can be converted. A plain object is the string
  \<open>[object Object]\<close>, not a number. The empty array is the empty string, an array of one
  element is the string of that element, and a longer array holds a comma.
\<close>

fun number_value :: "jsval \<Rightarrow> jsnum" where
  "number_value JUndefined = NaN"
| "number_value JNull = to_double 0"
| "number_value (JBool b) = (if b then to_double 1 else to_double 0)"
| "number_value (JNum n) = n"
| "number_value (JStr s) = StringToNumber s"
| "number_value (JObj fs) = NaN"
| "number_value (JArr []) = to_double 0"
| "number_value (JArr [JUndefined]) = to_double 0"
| "number_value (JArr [JNull]) = to_double 0"
| "number_value (JArr [JBool b]) = NaN"
| "number_value (JArr [JNum n]) = n"
| "number_value (JArr [JStr s]) = StringToNumber s"
| "number_value (JArr [JObj fs]) = NaN"
| "number_value (JArr [JArr xs]) = number_value (JArr xs)"
| "number_value (JArr (x # y # zs)) = NaN"

definition cannot_convert :: string where
  "cannot_convert = ''Cannot convert object to primitive value''"

definition Number :: "jsval \<Rightarrow> error + jsnum" where
  "Number v = (if unconvertible v then Inl (TypeError cannot_convert) else Inr (number_value v))"

text \<open>Running a step that may throw, and the rest with its value.\<close>

definition and_then :: "error + 'a \<Rightarrow> ('a \<Rightarrow> error + 'b) \<Rightarrow> error + 'b" where
  "and_then r f = (case r of Inl e \<Rightarrow> Inl e | Inr x \<Rightarrow> f x)"

section \<open>The pricing function\<close>

text \<open>An object is a map from property names to values; an absent property reads as undefined.\<close>

type_synonym js_object = "string \<rightharpoonup> jsval"

definition field :: "js_object \<Rightarrow> string \<Rightarrow> jsval" where
  "field obj k = (case obj k of None \<Rightarrow> JUndefined | Some v \<Rightarrow> v)"

record totals =
  price_thb :: jsnum
  shipping_thb :: jsnum
  customer_rate :: jsnum
  service_fee_lak :: jsnum
  th_to_la_charge_lak :: jsnum
  actual_th_to_la_cost_lak :: jsnum
  price_lak :: jsnum
  shipping_lak :: jsnum
  total_lak :: jsnum
  rate_profit_lak :: jsnum
  net_profit_lak :: jsnum

definition computeTotals :: "js_object \<Rightarrow> jsnum \<Rightarrow> error + totals" where
  "computeTotals payload baseRate =
     and_then (Number (js_or (field payload ''price_thb'') (JNum (to_double 0)))) (\<lambda>priceThb.
     and_then (Number (js_or (field payload ''shipping_thb'') (JNum (to_double 0)))) (\<lambda>shipThb.
     and_then (Number (js_or (field payload ''service_fee_lak'') (JNum (to_double 0)))) (\<lambda>serviceFee.
     and_then (Number (js_or (field payload ''th_to_la_charge_lak'') (JNum (to_double 0)))) (\<lambda>thToLaCharge.
     and_then (Number (js_or (field payload ''actual_th_to_la_cost_lak'') (JNum (to_double 0)))) (\<lambda>actualCost.
     and_then (Number (js_or (field payload ''customer_rate'') (JNum baseRate))) (\<lambda>customerRate.
       let priceLak = js_mul priceThb customerRate;
           shipLak = js_mul shipThb customerRate;
           totalLak = js_add (js_add (js_add priceLak shipLak) serviceFee) thToLaCharge;
           rateProfitLak = js_mul (js_add priceThb shipThb) (js_sub customerRate baseRate);
           costLak = js_add (js_add (js_mul priceThb baseRate) (js_mul shipThb baseRate)) actualCost;
           netProfitLak = js_sub totalLak costLak
       in Inr \<lparr> price_thb = priceThb,
                shipping_thb = shipThb,
                customer_rate = customerRate,
                service_fee_lak = serviceFee,
                th_to_la_charge_lak = thToLaCharge,
                actual_th_to_la_cost_lak = actualCost,
                price_lak = priceLak,
                shipping_lak = shipLak,
                total_lak = totalLak,
                rate_profit_lak = rateProfitLak,
                net_profit_lak = netProfitLak \<rparr>))))))"

section \<open>The store\<close>

text \<open>
  The tables are read and written through the SQL statements of the handlers. A table is
  the list of its rows, with the columns the statements name; a row keeps the values it
  is given. An order row is its \<open>id\<close> and the twenty columns the handlers write, which are
  the properties of the object \<open>payload\<close> they build.
\<close>

record settings_row =
  settings_id :: nat
  exchange_rate :: jsval
  updated_at :: jsval

record order_payload = totals +
  order_date :: jsval
  customer_name :: jsval
  product_link :: jsval
  payment_status :: jsval
  order_status :: jsval
  tracking_no :: jsval
  carrier :: jsval
  tracking_link :: jsval
  rate :: jsnum

text \<open>
  The statements the handlers send, with their parameters: the read of the settings row,
  the update and the delete of the orders of an id, and the eleven aggregates of the
  summary, numbered in the order of the source.
\<close>

datatype statement =
    SelectSettings
  | UpdateOrders nat order_payload
  | DeleteOrders nat
  | SelectAggregate nat "string list"

text \<open>
  A query of the pool either completes or throws. Whether the storage answers a statement
  is not decided by the program: \<open>failure\<close> gives, for each statement, the message of the
  error the storage throws for it, if it does. The types of the columns are not in the
  source either, so the value of \<open>SUM\<close> over rows that exist is the storage's:
  \<open>column_sum\<close> gives it for the values of the column.
\<close>

record db =
  settings :: "settings_row list"
  orders :: "(nat \<times> order_payload) list"
  failure :: "statement \<Rightarrow> string option"
  column_sum :: "jsnum list \<Rightarrow> jsval"

definition query :: "db \<Rightarrow> statement \<Rightarrow> 'a \<Rightarrow> error + 'a" where
  "query d st result =
     (case failure d st of Some m \<Rightarrow> Inl (StorageFailure m) | None \<Rightarrow> Inr result)"

text \<open>\<open>SELECT exchange_rate FROM settings WHERE id = 1\<close>, and the same with \<open>updated_at\<close>.\<close>

definition select_settings :: "db \<Rightarrow> error + settings_row list" where
  "select_settings d = query d SelectSettings (filter (\<lambda>r. settings_id r = 1) (settings d))"

definition getBaseRate :: "db \<Rightarrow> error + jsnum" where
  "getBaseRate d =
     and_then (select_settings d) (\<lambda>rows.
       case rows of [] \<Rightarrow> Inr (to_double 0) | r # _ \<Rightarrow> Number (exchange_rate r))"

text \<open>
  \<open>UPDATE orders SET ... WHERE id = ?\<close> and \<open>DELETE FROM orders WHERE id = ?\<close>: the result
  is the number of rows the statement matched (\<open>affectedRows\<close>) and the new state.
\<close>

definition update_orders :: "nat \<Rightarrow> order_payload \<Rightarrow> db \<Rightarrow> error + (nat \<times> db)" where
  "update_orders i p d =
     query d (UpdateOrders i p)
       (length (filter (\<lambda>r. fst r = i) (orders d)),
        d\<lparr>orders := map (\<lambda>r. if fst r = i then (i, p) else r) (orders d)\<rparr>)"

definition delete_orders :: "nat \<Rightarrow> db \<Rightarrow> error + (nat \<times> db)" where
  "delete_orders i d =
     query d (DeleteOrders i)
       (length (filter (\<lambda>r. fst r = i) (orders d)),
        d\<lparr>orders := filter (\<lambda>r. fst r \<noteq> i) (orders d)\<rparr>)"

text \<open>
  \<open>SELECT SUM(col) AS v FROM orders WHERE ...\<close> is NULL when no row matches and the sum
  of the column over the matching rows otherwise; \<open>SELECT COUNT(*) AS c\<close> is their number.
\<close>

definition sql_sum :: "db \<Rightarrow> jsnum list \<Rightarrow> jsval" where
  "sql_sum d xs = (if xs = [] then JNull else column_sum d xs)"

definition select_sum ::
  "nat \<Rightarrow> string list \<Rightarrow> (order_payload \<Rightarrow> jsnum) \<Rightarrow> (order_payload \<Rightarrow> bool) \<Rightarrow> db \<Rightarrow> error + jsval"
  where
  "select_sum k ps col P d =
     query d (SelectAggregate k ps) (sql_sum d (map col (filter P (map snd (orders d)))))"

definition select_count ::
  "nat \<Rightarrow> string list \<Rightarrow> (order_payload \<Rightarrow> bool) \<Rightarrow> db \<Rightarrow> error + jsval" where
  "select_count k ps P d =
     query d (SelectAggregate k ps)
       (JNum (to_double (of_nat (length (filter P (map snd (orders d)))))))"

text \<open>
  The conditions of the statements. Dates are \<open>YYYY-MM-DD\<close> strings; \<open>YEAR\<close> and \<open>MONTH\<close>
  are the numbers read from their digits, compared with the numbers of the parameters.
\<close>

definition on_date :: "string \<Rightarrow> order_payload \<Rightarrow> bool" where
  "on_date today r = (order_date r = JStr today)"

fun YEAR :: "jsval \<Rightarrow> nat option" where
  "YEAR (JStr s) = parse_digits 10 (take 4 s)"
| "YEAR v = None"

fun MONTH :: "jsval \<Rightarrow> nat option" where
  "MONTH (JStr s) = parse_digits 10 (take 2 (drop 5 s))"
| "MONTH v = None"

definition in_month :: "string \<Rightarrow> string \<Rightarrow> order_payload \<Rightarrow> bool" where
  "in_month year month r =
     (YEAR (order_date r) \<noteq> None \<and> YEAR (order_date r) = parse_digits 10 year \<and>
      MONTH (order_date r) \<noteq> None \<and> MONTH (order_date r) = parse_digits 10 month)"

definition has_status :: "string \<Rightarrow> order_payload \<Rightarrow> bool" where
  "has_status s r = (payment_status r = JStr s)"

section \<open>Responses\<close>

text \<open>The object of the summary; the nested objects \<open>today\<close>, \<open>month\<close> and \<open>payments\<close> are flattened.\<close>

record summary =
  date :: string
  summary_rate :: jsval
  rate_updated :: jsval
  today_total_lak :: jsnum
  today_profit_total :: jsnum
  today_rate_profit :: jsnum
  today_other_profit :: jsnum
  today_orders_count :: jsnum
  month_total_lak :: jsnum
  month_profit_total :: jsnum
  month_period :: string
  paid_orders :: jsnum
  unpaid_orders :: jsnum
  unpaid_value_lak :: jsnum
  gross_value_lak :: jsnum
  all_orders_count :: jsnum

text \<open>A response is a status and the object given to \<open>res.json\<close>.\<close>

datatype json =
    ErrorJson string
  | DeletedJson bool
  | OrderJson jsnum order_payload
  | SummaryJson summary

datatype response = Response nat json

section \<open>The order handlers\<close>

text \<open>
  The object \<open>payload\<close> of the create and update handlers: the text properties of the body
  with their defaults, the base rate, and the fields of \<open>computeTotals\<close> (\<open>priced\<close>) spread
  over it.
  \<open>now\<close> is the current date, \<open>new Date().toISOString().slice(0, 10)\<close>.
\<close>

definition order_of :: "string \<Rightarrow> js_object \<Rightarrow> jsnum \<Rightarrow> totals \<Rightarrow> order_payload" where
  "order_of now body baseRate priced =
     \<lparr> price_thb = price_thb priced,
       shipping_thb = shipping_thb priced,
       customer_rate = customer_rate priced,
       service_fee_lak = service_fee_lak priced,
       th_to_la_charge_lak = th_to_la_charge_lak priced,
       actual_th_to_la_cost_lak = actual_th_to_la_cost_lak priced,
       price_lak = price_lak priced,
       shipping_lak = shipping_lak priced,
       total_lak = total_lak priced,
       rate_profit_lak = rate_profit_lak priced,
       net_profit_lak = net_profit_lak priced,
       order_date = js_or (field body ''order_date'') (JStr now),
       customer_name = js_or (field body ''customer_name'') (JStr []),
       product_link = js_or (field body ''product_link'') (JStr []),
       payment_status = js_or (field body ''payment_status'') (JStr ''Unpaid''),
       order_status = js_or (field body ''order_status'') (JStr ''Pending''),
       tracking_no = js_or (field body ''tracking_no'') (JStr []),
       carrier = js_or (field body ''carrier'') (JStr []),
       tracking_link = js_or (field body ''tracking_link'') (JStr []),
       rate = baseRate \<rparr>"

text \<open>
  \<open>PUT /api/orders/:id\<close>: the response and the state of the store afterwards. Whatever is
  thrown in the handler, by a query or by \<open>computeTotals\<close>, is caught and answered with
  status 500 and its message. The route parameter is the key the statement compares with
  the \<open>id\<close> column.
\<close>

definition put_order :: "string \<Rightarrow> nat \<Rightarrow> js_object \<Rightarrow> db \<Rightarrow> response \<times> db" where
  "put_order now i body d =
     (case getBaseRate d of
        Inl e \<Rightarrow> (Response 500 (ErrorJson (message e)), d)
      | Inr baseRate \<Rightarrow>
          (case computeTotals body baseRate of
             Inl e \<Rightarrow> (Response 500 (ErrorJson (message e)), d)
           | Inr priced \<Rightarrow>
               (let payload = order_of now body baseRate priced
                in case update_orders i payload d of
                     Inl e \<Rightarrow> (Response 500 (ErrorJson (message e)), d)
                   | Inr (affectedRows, d') \<Rightarrow>
                       if affectedRows = 0 then (Response 404 (ErrorJson ''Not found''), d')
                       else (Response 200 (OrderJson (to_double (of_nat i)) payload), d'))))"

text \<open>\<open>DELETE /api/orders/:id\<close>.\<close>

definition delete_order :: "nat \<Rightarrow> db \<Rightarrow> response \<times> db" where
  "delete_order i d =
     (case delete_orders i d of
        Inl e \<Rightarrow> (Response 500 (ErrorJson (message e)), d)
      | Inr (affectedRows, d') \<Rightarrow>
          if affectedRows = 0 then (Response 404 (ErrorJson ''Not found''), d')
          else (Response 200 (DeletedJson True), d'))"

section \<open>The summary\<close>

text \<open>A destructuring default \<open>{ v = d }\<close> replaces undefined, and nothing else.\<close>

definition js_default :: "jsval \<Rightarrow> jsval \<Rightarrow> jsval" where
  "js_default v d = (if v = JUndefined then d else v)"

text \<open>
  The eleven aggregates, in the order of the source. \<open>Promise.all\<close> rejects as soon as one
  of them does; the model takes the first of the list that fails.
\<close>

definition run_queries :: "string \<Rightarrow> string \<Rightarrow> string \<Rightarrow> db \<Rightarrow> error + jsval list" where
  "run_queries today year month d =
     (let queries =
        [select_sum 0 [today] total_lak (on_date today) d,
         select_sum 1 [today] net_profit_lak (on_date today) d,
         select_sum 2 [today] rate_profit_lak (on_date today) d,
         select_count 3 [today] (on_date today) d,
         select_sum 4 [year, month] total_lak (in_month year month) d,
         select_sum 5 [year, month] net_profit_lak (in_month year month) d,
         select_count 6 [] (has_status ''Paid'') d,
         select_count 7 [] (has_status ''Unpaid'') d,
         select_count 8 [] (\<lambda>r. True) d,
         select_sum 9 [] total_lak (has_status ''Unpaid'') d,
         select_sum 10 [] total_lak (\<lambda>r. True) d]
      in case filter isl queries of
           q # _ \<Rightarrow> Inl (projl q)
         | [] \<Rightarrow> Inr (map projr queries))"

text \<open>
  The body of \<open>GET /api/stats/summary\<close>. \<open>qdate\<close> is \<open>req.query.date\<close>, absent or a string;
  \<open>now\<close> is the current date. Each aggregate \<open>x\<close> is read as \<open>Number(x || 0)\<close>, after its
  destructuring default.
\<close>

definition summarize :: "string \<Rightarrow> string option \<Rightarrow> db \<Rightarrow> error + summary" where
  "summarize now qdate d =
     (let today = (case qdate of None \<Rightarrow> now | Some s \<Rightarrow> if s \<noteq> [] then s else now);
          year = take 4 today;
          month = take 2 (drop 5 today)
      in case select_settings d of
           Inl e \<Rightarrow> Inl e
         | Inr rows \<Rightarrow>
             (let rate0 = (case rows of [] \<Rightarrow> JNum (to_double 0)
                           | r # _ \<Rightarrow> js_default (exchange_rate r) (JNum (to_double 0)));
                  updated_at0 = (case rows of [] \<Rightarrow> JNull
                                 | r # _ \<Rightarrow> js_default (updated_at r) JNull)
              in case run_queries today year month d of
                   Inl e \<Rightarrow> Inl e
                 | Inr results \<Rightarrow>
                     (let numbers =
                            map (\<lambda>x. Number (js_or (js_default x (JNum (to_double 0)))
                                                   (JNum (to_double 0)))) results
                      in case filter isl numbers of
                           n # _ \<Rightarrow> Inl (projl n)
                         | [] \<Rightarrow>
                             (let v = (\<lambda>k. projr (numbers ! k))
                              in Inr \<lparr> date = today,
                                       summary_rate = rate0,
                                       rate_updated = updated_at0,
                                       today_total_lak = v 0,
                                       today_profit_total = v 1,
                                       today_rate_profit = v 2,
                                       today_other_profit = js_sub (v 1) (v 2),
                                       today_orders_count = v 3,
                                       month_total_lak = v 4,
                                       month_profit_total = v 5,
                                       month_period = year @ ''-'' @ month,
                                       paid_orders = v 6,
                                       unpaid_orders = v 7,
                                       unpaid_value_lak = v 9,
                                       gross_value_lak = v 10,
                                       all_orders_count = v 8 \<rparr>))))"

definition get_stats_summary :: "string \<Rightarrow> string option \<Rightarrow> db \<Rightarrow> response" where
  "get_stats_summary now qdate d =
     (case summarize now qdate d of
        Inl e \<Rightarrow> Response 500 (ErrorJson (message e))
      | Inr s \<Rightarrow> Response 200 (SummaryJson s))"

section \<open>Concrete inputs\<close>

text \<open>The order of the calibration scenario.\<close>

definition scenario :: js_object where
  "scenario =
     [''price_thb'' \<mapsto> JNum (to_double 100),
      ''shipping_thb'' \<mapsto> JNum (to_double 20),
      ''service_fee_lak'' \<mapsto> JNum (to_double 5000),
      ''th_to_la_charge_lak'' \<mapsto> JNum (to_double 2000),
      ''actual_th_to_la_cost_lak'' \<mapsto> JNum (to_double 3000),
      ''customer_rate'' \<mapsto> JNum (to_double 1350)]"


definition garbage :: js_object where
  "garbage = [''price_thb'' \<mapsto> JStr ''abc'']"

definition garbage_at_base :: js_object where
  "garbage_at_base =
     [''price_thb'' \<mapsto> JStr ''abc'', ''customer_rate'' \<mapsto> JNum (to_double 1300)]"

definition infinite_at_base :: js_object where
  "infinite_at_base =
     [''price_thb'' \<mapsto> JStr ''Infinity'', ''customer_rate'' \<mapsto> JNum (to_double 1300)]"

definition infinite_price :: js_object where
  "infinite_price = [''price_thb'' \<mapsto> JStr ''Infinity'']"

definition at_base :: js_object where
  "at_base =
     [''price_thb'' \<mapsto> JNum (to_double 100),
      ''shipping_thb'' \<mapsto> JNum (to_double 20),
      ''customer_rate'' \<mapsto> JNum (to_double 1300)]"

definition no_rate :: js_object where
  "no_rate =
     [''price_thb'' \<mapsto> JNum (to_double 100),
      ''shipping_thb'' \<mapsto> JNum (to_double 20),
      ''service_fee_lak'' \<mapsto> JNum (to_double 5000),
      ''actual_th_to_la_cost_lak'' \<mapsto> JNum (to_double 3000)]"

definition zero_rate :: js_object where
  "zero_rate = [''price_thb'' \<mapsto> JNum (to_double 100), ''customer_rate'' \<mapsto> JNum (to_double 0)]"

definition throwing :: js_object where
  "throwing = [''price_thb'' \<mapsto> JObj [(''toString'', JNull)], ''shipping_thb'' \<mapsto> JNull]"

text \<open>What the pricing function returns for these orders.\<close>

definition scenario_out :: totals where
  "scenario_out =
     \<lparr> price_thb = to_double 100, shipping_thb = to_double 20, customer_rate = to_double 1350,
       service_fee_lak = to_double 5000, th_to_la_charge_lak = to_double 2000,
       actual_th_to_la_cost_lak = to_double 3000,
       price_lak = to_double 135000, shipping_lak = to_double 27000,
       total_lak = to_double 169000, rate_profit_lak = to_double 6000,
       net_profit_lak = to_double 10000 \<rparr>"

definition at_base_out :: totals where
  "at_base_out =
     \<lparr> price_thb = to_double 100, shipping_thb = to_double 20, customer_rate = to_double 1300,
       service_fee_lak = to_double 0, th_to_la_charge_lak = to_double 0,
       actual_th_to_la_cost_lak = to_double 0,
       price_lak = to_double 130000, shipping_lak = to_double 26000,
       total_lak = to_double 156000, rate_profit_lak = to_double 0,
       net_profit_lak = to_double 0 \<rparr>"

definition no_rate_out :: totals where
  "no_rate_out =
     \<lparr> price_thb = to_double 100, shipping_thb = to_double 20, customer_rate = to_double 0,
       service_fee_lak = to_double 5000, th_to_la_charge_lak = to_double 0,
       actual_th_to_la_cost_lak = to_double 3000,
       price_lak = to_double 0, shipping_lak = to_double 0,
       total_lak = to_double 5000, rate_profit_lak = to_double 0,
       net_profit_lak = to_double 2000 \<rparr>"

definition zero_rate_out :: totals where
  "zero_rate_out =
     \<lparr> price_thb = to_double 100, shipping_thb = to_double 0, customer_rate = to_double 1300,
       service_fee_lak = to_double 0, th_to_la_charge_lak = to_double 0,
       actual_th_to_la_cost_lak = to_double 0,
       price_lak = to_double 130000, shipping_lak = to_double 0,
       total_lak = to_double 130000, rate_profit_lak = to_double 0,
       net_profit_lak = to_double 0 \<rparr>"


definition garbage_out :: "jsnum \<Rightarrow> totals" where
  "garbage_out r =
     \<lparr> price_thb = NaN, shipping_thb = to_double 0, customer_rate = r,
       service_fee_lak = to_double 0, th_to_la_charge_lak = to_double 0,
       actual_th_to_la_cost_lak = to_double 0,
       price_lak = NaN, shipping_lak = to_double 0,
       total_lak = NaN, rate_profit_lak = NaN,
       net_profit_lak = NaN \<rparr>"

definition infinite_at_base_out :: totals where
  "infinite_at_base_out =
     \<lparr> price_thb = PInf, shipping_thb = to_double 0, customer_rate = to_double 1300,
       service_fee_lak = to_double 0, th_to_la_charge_lak = to_double 0,
       actual_th_to_la_cost_lak = to_double 0,
       price_lak = PInf, shipping_lak = to_double 0,
       total_lak = PInf, rate_profit_lak = NaN,
       net_profit_lak = NaN \<rparr>"

definition infinite_price_out :: totals where
  "infinite_price_out =
     \<lparr> price_thb = PInf, shipping_thb = to_double 0, customer_rate = to_double 0,
       service_fee_lak = to_double 0, th_to_la_charge_lak = to_double 0,
       actual_th_to_la_cost_lak = to_double 0,
       price_lak = NaN, shipping_lak = to_double 0,
       total_lak = NaN, rate_profit_lak = NaN,
       net_profit_lak = NaN \<rparr>"

text \<open>
  Stores: one with the settings row at the rate 1300 and the order 7, stored at the rate
  1250; the same store when the storage is down; one with the settings row and no order;
  one with nothing in it.
\<close>

text \<open>A storage that adds the values of a column as doubles.\<close>

definition double_sum :: "jsnum list \<Rightarrow> jsval" where
  "double_sum xs = JNum (foldl js_add (to_double 0) xs)"

definition settings_1300 :: settings_row where
  "settings_1300 =
     \<lparr> settings_id = 1, exchange_rate = JStr ''1300.00'',
       updated_at = JStr ''2024-01-10 08:00:00'' \<rparr>"

definition order_7 :: order_payload where
  "order_7 =
     \<lparr> price_thb = to_double 100,
       shipping_thb = to_double 20,
       customer_rate = to_double 1350,
       service_fee_lak = to_double 5000,
       th_to_la_charge_lak = to_double 2000,
       actual_th_to_la_cost_lak = to_double 3000,
       price_lak = to_double 135000,
       shipping_lak = to_double 27000,
       total_lak = to_double 169000,
       rate_profit_lak = to_double 12000,
       net_profit_lak = to_double 16000,
       order_date = JStr ''2024-01-05'',
       customer_name = JStr ''Noy'',
       product_link = JStr [],
       payment_status = JStr ''Unpaid'',
       order_status = JStr ''Pending'',
       tracking_no = JStr [],
       carrier = JStr [],
       tracking_link = JStr [],
       rate = to_double 1250 \<rparr>"

definition db_one :: db where
  "db_one =
     \<lparr> settings = [settings_1300], orders = [(7, order_7)],
       failure = (\<lambda>st. None), column_sum = double_sum \<rparr>"

definition db_down :: db where
  "db_down = db_one\<lparr>failure := (\<lambda>st. Some ''connect ECONNREFUSED'')\<rparr>"

definition db_settings :: db where
  "db_settings =
     \<lparr> settings = [settings_1300], orders = [],
       failure = (\<lambda>st. None), column_sum = double_sum \<rparr>"

definition empty_db :: db where
  "empty_db =
     \<lparr> settings = [], orders = [], failure = (\<lambda>st. None), column_sum = double_sum \<rparr>"

section \<open>Properties of the rounding\<close>

lemma bits_0 [simp]: "bits 0 = 0"
  by (simp add: bits.simps)

lemma rhe_of_int [simp]: "rhe (of_int m) = m"
  by (simp add: rhe_def)

lemma rhe_0 [simp]: "rhe 0 = 0"
  by (simp add: rhe_def)

lemma round_abs_0 [simp]: "round_abs 0 = 0"
  by (simp add: round_abs_def)

lemma is_double_0 [simp]: "is_double 0"
  by (simp add: is_double_def)

lemma bits_double: "0 < n \<Longrightarrow> bits (2 * n) = Suc (bits n)"
  by (subst bits.simps) simp

lemma bits_mult_pow2: "0 < n \<Longrightarrow> bits (n * 2 ^ j) = bits n + j"
proof (induction j)
  case 0
  then show ?case by simp
next
  case (Suc j)
  have "bits (n * 2 ^ Suc j) = bits (2 * (n * 2 ^ j))"
    by (simp add: mult.commute mult.left_commute)
  also have "\<dots> = Suc (bits (n * 2 ^ j))"
    using Suc.prems by (intro bits_double) simp
  finally show ?case using Suc by simp
qed

lemma bits_le: "n < 2 ^ k \<Longrightarrow> bits n \<le> k"
proof (induction n arbitrary: k rule: bits.induct)
  case (1 n)
  show ?case
  proof (cases "n = 0")
    case True
    then show ?thesis by simp
  next
    case False
    then obtain k' where k: "k = Suc k'"
      using "1.prems" by (cases k) auto
    have "n div 2 < 2 ^ k'"
      using "1.prems" k by auto
    then have "bits (n div 2) \<le> k'"
      using "1.IH" False by blast
    then show ?thesis
      using False k by (subst bits.simps) simp
  qed
qed

lemma bits_bound: "n < 2 ^ bits n"
proof (induction n rule: bits.induct)
  case (1 n)
  show ?case
  proof (cases "n = 0")
    case True
    then show ?thesis by simp
  next
    case False
    then have "n div 2 < 2 ^ bits (n div 2)"
      using "1.IH" by blast
    then have "n < 2 * 2 ^ bits (n div 2)"
      by linarith
    then show ?thesis
      using False by (subst bits.simps) simp
  qed
qed

text \<open>A value of at most 53 significant bits is rounded to itself.\<close>

lemma round_abs_exact:
  fixes k j :: nat
  assumes "k < 2 ^ 53"
  shows "round_abs (of_nat k * 2 ^ j / 2 ^ 1074) = of_nat k * 2 ^ j / 2 ^ 1074"
proof (cases "k = 0")
  case True
  then show ?thesis by simp
next
  case False
  define t where "t = bits k"
  have t53: "t \<le> 53" unfolding t_def using assms by (rule bits_le)
  have K: "(of_nat k :: rat) * 2 ^ j / 2 ^ 1074 * 2 ^ 1074 = of_nat (k * 2 ^ j)"
    by simp
  have fl: "nat \<lfloor>(of_nat (k * 2 ^ j) :: rat)\<rfloor> = k * 2 ^ j"
    by (metis floor_of_nat nat_int)
  have b: "bits (k * 2 ^ j) = t + j"
    unfolding t_def using False by (intro bits_mult_pow2) simp
  define sh where "sh = t + j - 53"
  have shj: "sh \<le> j"
    unfolding sh_def using t53 by simp
  have q: "(of_nat (k * 2 ^ j) :: rat) / 2 ^ sh = of_int (int (k * 2 ^ (j - sh)))"
  proof -
    have "(2::rat) ^ j = 2 ^ sh * 2 ^ (j - sh)"
      using shj by (simp add: power_add [symmetric])
    then show ?thesis by simp
  qed
  have "round_abs (of_nat k * 2 ^ j / 2 ^ 1074) =
          of_int (int (k * 2 ^ (j - sh))) * 2 ^ sh / 2 ^ 1074"
    unfolding round_abs_def Let_def K fl b sh_def[symmetric] q rhe_of_int ..
  also have "\<dots> = of_nat k * (2 ^ (j - sh) * 2 ^ sh) / 2 ^ 1074"
    by simp
  also have "(2::rat) ^ (j - sh) * 2 ^ sh = 2 ^ j"
    using shj by (simp add: power_add [symmetric])
  finally show ?thesis .
qed

lemma round_abs_exact_nat:
  fixes k j :: nat
  assumes "k < 2 ^ 53"
  shows "round_abs (of_nat k * 2 ^ j) = of_nat k * 2 ^ j"
  using round_abs_exact [OF assms, of "j + 1074"] by (simp add: power_add)

lemma rhe_bounds: "\<lfloor>x\<rfloor> \<le> rhe x \<and> rhe x \<le> \<lfloor>x\<rfloor> + 1"
  by (simp add: rhe_def Let_def)

text \<open>Rounding gives a value of at most 53 significant bits, so rounding again changes nothing.\<close>

lemma round_abs_form:
  assumes "0 \<le> a"
  shows "\<exists>k j. k < (2::nat) ^ 53 \<and> round_abs a = of_nat k * 2 ^ j / 2 ^ 1074"
proof -
  define K where "K = a * 2 ^ 1074"
  define b where "b = bits (nat \<lfloor>K\<rfloor>)"
  define sh where "sh = b - 53"
  define x where "x = K / 2 ^ sh"
  define n where "n = rhe x"
  have r: "round_abs a = of_int n * 2 ^ sh / 2 ^ 1074"
    by (simp add: round_abs_def Let_def K_def b_def sh_def x_def n_def)
  have K0: "0 \<le> K" unfolding K_def using assms by simp
  have x0: "0 \<le> x" unfolding x_def using K0 by simp
  have "nat \<lfloor>K\<rfloor> < 2 ^ b"
    unfolding b_def by (rule bits_bound)
  then have "\<lfloor>K\<rfloor> < 2 ^ b"
    using K0 by (simp add: nat_less_iff)
  then have Kb: "K < 2 ^ b"
    by (metis floor_less_iff of_int_numeral of_int_power)
  have shb: "b \<le> sh + 53" unfolding sh_def by simp
  have "K < 2 ^ (sh + 53)"
    using Kb shb by (meson le_less_trans not_le one_le_numeral power_increasing)
  then have x53: "x < 2 ^ 53"
    unfolding x_def by (simp add: power_add field_simps)
  then have "\<lfloor>x\<rfloor> < 2 ^ 53"
    by (metis floor_less_iff le_less_trans of_int_floor_le of_int_numeral of_int_power)
  then have n53: "n \<le> 2 ^ 53"
    unfolding n_def using rhe_bounds [of x] by linarith
  have n0: "0 \<le> n"
    unfolding n_def using rhe_bounds [of x] x0 by (meson order_trans zero_le_floor)
  show ?thesis
  proof (cases "n = 2 ^ 53")
    case True
    have "round_abs a = of_nat (2 ^ 52) * 2 ^ (Suc sh) / 2 ^ 1074"
      by (simp add: r True)
    moreover have "(2::nat) ^ 52 < 2 ^ 53" by simp
    ultimately show ?thesis by blast
  next
    case False
    then have "n < 2 ^ 53"
      using n53 by simp
    then have "nat n < 2 ^ 53"
      using n0 by (simp add: nat_less_iff)
    moreover have "round_abs a = of_nat (nat n) * 2 ^ sh / 2 ^ 1074"
      using n0 by (simp add: r)
    ultimately show ?thesis by blast
  qed
qed

lemma round_abs_idem:
  assumes "0 \<le> a"
  shows "round_abs (round_abs a) = round_abs a"
proof -
  from round_abs_form [OF assms] obtain k j :: nat
    where k: "k < 2 ^ 53" and r: "round_abs a = of_nat k * 2 ^ j / 2 ^ 1074"
    by blast
  show ?thesis
    unfolding r using k by (rule round_abs_exact)
qed

lemma round_abs_nonneg:
  assumes "0 \<le> a"
  shows "0 \<le> round_abs a"
proof -
  from round_abs_form [OF assms] obtain k j :: nat
    where r: "round_abs a = of_nat k * 2 ^ j / 2 ^ 1074"
    by blast
  show ?thesis
    unfolding r by simp
qed

lemma is_double_round:
  assumes "round_abs \<bar>q\<bar> < 2 ^ 1024"
  shows "is_double (round_abs \<bar>q\<bar>)"
  using assms round_abs_nonneg [of "\<bar>q\<bar>"] round_abs_idem [of "\<bar>q\<bar>"]
  by (simp add: is_double_def)

section \<open>Arithmetic on doubles\<close>

lemma to_double_exact: "is_double q \<Longrightarrow> to_double q = Fin (dbl q)"
  by (auto simp: to_double_def is_double_def Let_def)

lemma val_dbl: "is_double q \<Longrightarrow> val (dbl q) = q"
  by (simp add: dbl_inverse)

lemma is_double_val [simp]: "is_double (val d)"
  using val [of d] by simp

lemma to_double_val [simp]: "to_double (val d) = Fin d"
  by (simp add: to_double_exact val_inverse)

lemma is_double_minus [simp]: "is_double (- q) = is_double q"
  by (simp add: is_double_def)

lemma is_double_of_nat: "k < 2 ^ 53 \<Longrightarrow> is_double (of_nat k)"
proof -
  assume k: "k < 2 ^ 53"
  have "round_abs (of_nat k * 2 ^ 0) = of_nat k * 2 ^ 0"
    using k by (rule round_abs_exact_nat)
  moreover have "(of_nat k :: rat) < 2 ^ 1024"
  proof -
    have "(of_nat k :: rat) < of_nat (2 ^ 53)"
      using k by (simp only: of_nat_less_iff)
    also have "\<dots> \<le> 2 ^ 1024" by simp
    finally show ?thesis .
  qed
  ultimately show ?thesis by (simp add: is_double_def)
qed

lemma is_double_numeral: "(numeral w :: nat) < 2 ^ 53 \<Longrightarrow> is_double (numeral w)"
  using is_double_of_nat [of "numeral w"] by simp

lemma is_double_1 [simp]: "is_double 1"
  using is_double_of_nat [of 1] by simp

text \<open>The value of a rounded number is the rounded value.\<close>

lemma to_double_value:
  assumes "to_double q = Fin d"
  shows "val d = (if q < 0 then - round_abs \<bar>q\<bar> else round_abs \<bar>q\<bar>)"
proof -
  define r where "r = round_abs \<bar>q\<bar>"
  have lt: "r < 2 ^ 1024"
    using assms by (auto simp: to_double_def Let_def r_def split: if_splits)
  have d: "d = dbl (if q < 0 then - r else r)"
    using assms lt by (auto simp: to_double_def Let_def r_def split: if_splits)
  have "is_double r"
    unfolding r_def using lt unfolding r_def by (rule is_double_round)
  then have "val (dbl (if q < 0 then - r else r)) = (if q < 0 then - r else r)"
    by (intro val_dbl) simp
  then show ?thesis
    by (simp add: d r_def)
qed

text \<open>Evaluating the arithmetic on integers below \<open>2 ^ 53\<close>.\<close>

lemmas num_simps = to_double_exact val_dbl is_double_numeral

lemma to_double_0: "to_double 0 = Fin (dbl 0)"
  by (simp add: to_double_exact)

lemma val_dbl_0 [simp]: "val (dbl 0) = 0"
  by (simp add: val_dbl)

lemma js_value_zero [simp]: "js_value (to_double 0) = Some 0"
  by (simp add: to_double_0)

lemma to_double_not_NaN [simp]: "to_double q \<noteq> NaN"
  by (simp add: to_double_def Let_def)

lemma js_add_zero_left: "js_add (to_double 0) x = x"
  by (cases x) (simp_all add: to_double_0)

lemma js_sub_self: "js_sub (Fin d) (Fin d) = to_double 0"
  by (simp add: js_sub_def val_dbl)

lemma js_mul_zero_right: "js_mul (Fin z) (to_double 0) = to_double 0"
  by (simp add: to_double_0)

lemma js_add_finite: "js_add x y = Fin z \<Longrightarrow> \<exists>a b. x = Fin a \<and> y = Fin b"
  by (cases x; cases y) simp_all

lemma js_eq_self: "js_eq x x = (x \<noteq> NaN)"
  by (simp add: js_eq_def)

text \<open>Beyond the range the sum is an infinity: \<open>2 ^ 1023 + 2 ^ 1023\<close> overflows.\<close>

lemma double_overflow: "js_add (to_double (2 ^ 1023)) (to_double (2 ^ 1023)) = PInf"
proof -
  have e: "round_abs (2 ^ 1023) = 2 ^ 1023"
  proof -
    have "round_abs (of_nat 1 * 2 ^ 1023) = of_nat 1 * 2 ^ 1023"
      by (rule round_abs_exact_nat) simp
    then show ?thesis by (simp only: of_nat_1 mult_1)
  qed
  have f: "round_abs (2 ^ 1024) = 2 ^ 1024"
  proof -
    have "round_abs (of_nat 1 * 2 ^ 1024) = of_nat 1 * 2 ^ 1024"
      by (rule round_abs_exact_nat) simp
    then show ?thesis by (simp only: of_nat_1 mult_1)
  qed
  have a3: "\<bar>(2::rat) ^ 1023\<bar> = 2 ^ 1023" and a4: "\<bar>(2::rat) ^ 1024\<bar> = 2 ^ 1024"
    by simp_all
  have d: "is_double (2 ^ 1023)"
    by (simp only: is_double_def a3 e) simp
  have "js_add (to_double (2 ^ 1023)) (to_double (2 ^ 1023)) = to_double (2 ^ 1023 + 2 ^ 1023)"
    by (simp only: to_double_exact [OF d] js_add.simps val_dbl [OF d])
  also have "(2::rat) ^ 1023 + 2 ^ 1023 = 2 ^ 1024"
    by simp
  also have "to_double (2 ^ 1024) = PInf"
    by (simp only: to_double_def Let_def a4 f) simp
  finally show ?thesis .
qed

text \<open>Beyond 53 bits the result is rounded, a tie to the even neighbour: \<open>2 ^ 53 + 1\<close> is \<open>2 ^ 53\<close>.\<close>

lemma bits_2_53_1: "bits (2 ^ 53 + 1) = 54"
proof -
  have "bits (2 ^ 53 + 1) \<le> 54"
    by (rule bits_le) simp
  moreover have "(2::nat) ^ 53 < 2 ^ bits (2 ^ 53 + 1)"
    using bits_bound [of "2 ^ 53 + 1"] by linarith
  then have "53 < bits (2 ^ 53 + 1)"
    by (simp only: power_strict_increasing_iff rel_simps)
  ultimately show ?thesis by linarith
qed

lemma rhe_tie_even:
  assumes "even m"
  shows "rhe (of_int m + 1 / 2) = m"
proof -
  have fl: "\<lfloor>(of_int m :: rat) + 1 / 2\<rfloor> = m"
    by (simp add: floor_eq_iff)
  show ?thesis
    unfolding rhe_def Let_def fl using assms by simp
qed

lemma round_abs_tie: "round_abs (2 ^ 53 + 1) = 2 ^ 53"
proof -
  have K: "((2::rat) ^ 53 + 1) * 2 ^ 1074 = of_nat ((2 ^ 53 + 1) * 2 ^ 1074)"
    by simp
  have fl: "nat \<lfloor>(of_nat ((2 ^ 53 + 1) * 2 ^ 1074) :: rat)\<rfloor> = (2 ^ 53 + 1) * 2 ^ 1074"
    by (metis floor_of_nat nat_int)
  have b: "bits ((2 ^ 53 + 1) * 2 ^ 1074) = 54 + 1074"
  proof -
    have "bits ((2 ^ 53 + 1) * 2 ^ 1074) = bits (2 ^ 53 + 1) + 1074"
      by (rule bits_mult_pow2) simp
    then show ?thesis by (simp only: bits_2_53_1)
  qed
  have sh: "54 + 1074 - 53 = (1075::nat)"
    by simp
  have q: "(of_nat ((2 ^ 53 + 1) * 2 ^ 1074) :: rat) / 2 ^ 1075 = of_int (2 ^ 52) + 1 / 2"
    by simp
  have r: "rhe (of_int (2 ^ 52) + 1 / 2) = 2 ^ 52"
    by (rule rhe_tie_even) simp
  have "round_abs (2 ^ 53 + 1) = of_int (2 ^ 52) * 2 ^ 1075 / 2 ^ 1074"
    unfolding round_abs_def Let_def K fl b sh q r ..
  also have "\<dots> = 2 ^ 53"
    by simp
  finally show ?thesis .
qed

lemma double_rounding: "to_double (2 ^ 53 + 1) = to_double (2 ^ 53)"
proof -
  have e: "round_abs (2 ^ 53) = 2 ^ 53"
  proof -
    have "round_abs (of_nat 1 * 2 ^ 53) = of_nat 1 * 2 ^ 53"
      by (rule round_abs_exact_nat) simp
    then show ?thesis by (simp only: of_nat_1 mult_1)
  qed
  have a1: "\<bar>(2::rat) ^ 53 + 1\<bar> = 2 ^ 53 + 1" and a2: "\<bar>(2::rat) ^ 53\<bar> = 2 ^ 53"
    by simp_all
  have n1: "\<not> ((2::rat) ^ 53 + 1 < 0)" and n2: "\<not> ((2::rat) ^ 53 < 0)"
    by simp_all
  show ?thesis
    by (simp only: to_double_def Let_def a1 a2 round_abs_tie e n1 n2 if_False)
qed

section \<open>Properties of the conversions\<close>

lemma Number_JNum [simp]: "Number (JNum n) = Inr n"
  by (simp add: Number_def)

lemma zero_falsy [simp]: "\<not> ToBoolean (JNum (to_double 0))"
  by simp


lemmas str_simps =
  StringToNumber_def trim_def is_ws_def NonDecimalIntegerLiteral_def StrDecimalLiteral_def
  StrUnsignedDecimalLiteral_def is_digit_def digit_of_def parse_digits_def ExponentPart_def
  scale10_def Let_def

lemma StringToNumber_abc: "StringToNumber ''abc'' = NaN"
  by (simp add: str_simps)

lemma StringToNumber_Infinity: "StringToNumber ''Infinity'' = PInf"
  by (simp add: str_simps)

lemma StringToNumber_1300: "StringToNumber ''1300.00'' = to_double 1300"
  by (simp add: str_simps)

section \<open>The fields of the pricing function\<close>

lemma computeTotals_fields:
  assumes "computeTotals p b = Inr out"
  shows "Number (js_or (field p ''price_thb'') (JNum (to_double 0))) = Inr (price_thb out)"
    and "Number (js_or (field p ''shipping_thb'') (JNum (to_double 0))) = Inr (shipping_thb out)"
    and "Number (js_or (field p ''service_fee_lak'') (JNum (to_double 0))) = Inr (service_fee_lak out)"
    and "Number (js_or (field p ''th_to_la_charge_lak'') (JNum (to_double 0))) =
           Inr (th_to_la_charge_lak out)"
    and "Number (js_or (field p ''actual_th_to_la_cost_lak'') (JNum (to_double 0))) =
           Inr (actual_th_to_la_cost_lak out)"
    and "Number (js_or (field p ''customer_rate'') (JNum b)) = Inr (customer_rate out)"
    and "price_lak out = js_mul (price_thb out) (customer_rate out)"
    and "shipping_lak out = js_mul (shipping_thb out) (customer_rate out)"
    and "total_lak out =
           js_add (js_add (js_add (price_lak out) (shipping_lak out)) (service_fee_lak out))
                  (th_to_la_charge_lak out)"
    and "rate_profit_lak out =
           js_mul (js_add (price_thb out) (shipping_thb out)) (js_sub (customer_rate out) b)"
    and "net_profit_lak out =
           js_sub (total_lak out)
                  (js_add (js_add (js_mul (price_thb out) b) (js_mul (shipping_thb out) b))
                          (actual_th_to_la_cost_lak out))"
  using assms
  by (auto simp: computeTotals_def and_then_def Let_def split: sum.splits)

lemma computeTotals_returns:
  assumes "Number (js_or (field p ''price_thb'') (JNum (to_double 0))) = Inr pt"
    and "Number (js_or (field p ''shipping_thb'') (JNum (to_double 0))) = Inr st"
    and "Number (js_or (field p ''service_fee_lak'') (JNum (to_double 0))) = Inr sf"
    and "Number (js_or (field p ''th_to_la_charge_lak'') (JNum (to_double 0))) = Inr tc"
    and "Number (js_or (field p ''actual_th_to_la_cost_lak'') (JNum (to_double 0))) = Inr ac"
    and "Number (js_or (field p ''customer_rate'') (JNum b)) = Inr cr"
  shows "computeTotals p b =
           Inr \<lparr> price_thb = pt, shipping_thb = st, customer_rate = cr,
                 service_fee_lak = sf, th_to_la_charge_lak = tc, actual_th_to_la_cost_lak = ac,
                 price_lak = js_mul pt cr,
                 shipping_lak = js_mul st cr,
                 total_lak = js_add (js_add (js_add (js_mul pt cr) (js_mul st cr)) sf) tc,
                 rate_profit_lak = js_mul (js_add pt st) (js_sub cr b),
                 net_profit_lak =
                   js_sub (js_add (js_add (js_add (js_mul pt cr) (js_mul st cr)) sf) tc)
                          (js_add (js_add (js_mul pt b) (js_mul st b)) ac) \<rparr>"
  using assms by (simp add: computeTotals_def and_then_def Let_def)

section \<open>The pricing function on the concrete orders\<close>

lemmas eval_simps =
  computeTotals_def and_then_def Let_def field_def js_or_def js_sub_def Number_def inf_times_def
  num_simps to_double_0

lemma computeTotals_scenario: "computeTotals scenario (to_double 1300) = Inr scenario_out"
  by (simp add: eval_simps scenario_def scenario_out_def)

lemma computeTotals_at_base: "computeTotals at_base (to_double 1300) = Inr at_base_out"
  by (simp add: eval_simps at_base_def at_base_out_def)

lemma computeTotals_no_rate: "computeTotals no_rate (to_double 0) = Inr no_rate_out"
  by (simp add: eval_simps no_rate_def no_rate_out_def)

lemma computeTotals_zero_rate: "computeTotals zero_rate (to_double 1300) = Inr zero_rate_out"
  by (simp add: eval_simps zero_rate_def zero_rate_out_def)


lemma computeTotals_garbage:
  "computeTotals garbage (to_double 1300) = Inr (garbage_out (to_double 1300))"
  by (simp add: eval_simps garbage_def garbage_out_def StringToNumber_abc)

lemma computeTotals_garbage_zero:
  "computeTotals garbage (to_double 0) = Inr (garbage_out (to_double 0))"
  by (simp add: eval_simps garbage_def garbage_out_def StringToNumber_abc)

lemma computeTotals_garbage_at_base:
  "computeTotals garbage_at_base (to_double 1300) = Inr (garbage_out (to_double 1300))"
  by (simp add: eval_simps garbage_at_base_def garbage_out_def StringToNumber_abc)

lemma computeTotals_infinite_at_base:
  "computeTotals infinite_at_base (to_double 1300) = Inr infinite_at_base_out"
  by (simp add: eval_simps infinite_at_base_def infinite_at_base_out_def StringToNumber_Infinity)

lemma computeTotals_infinite_price:
  "computeTotals infinite_price (to_double 0) = Inr infinite_price_out"
  by (simp add: eval_simps infinite_price_def infinite_price_out_def StringToNumber_Infinity)

lemma computeTotals_throwing: "computeTotals throwing b = Inl (TypeError cannot_convert)"
  by (simp add: computeTotals_def and_then_def field_def js_or_def Number_def throwing_def)

section \<open>Properties of the pricing function\<close>

lemma customer_rate_eq:
  assumes "computeTotals p b = Inr out" and "Number (field p ''customer_rate'') = Inr b"
  shows "customer_rate out = b"
  using computeTotals_fields(6) [OF assms(1)] assms(2)
  by (simp add: js_or_def split: if_splits)

text \<open>
  C1. For \<open>price_thb = 100\<close>, \<open>shipping_thb = 20\<close>, \<open>service_fee_lak = 5000\<close>,
  \<open>th_to_la_charge_lak = 2000\<close>, \<open>actual_th_to_la_cost_lak = 3000\<close>, \<open>customer_rate = 1350\<close>
  and the base rate 1300, the pricing function returns \<open>price_lak = 135000\<close>,
  \<open>shipping_lak = 27000\<close>, \<open>total_lak = 169000\<close>, \<open>rate_profit_lak = 6000\<close> and
  \<open>net_profit_lak = 10000\<close>, each exactly.
\<close>

theorem scenario_totals:
  "\<exists>out. computeTotals scenario (to_double 1300) = Inr out \<and>
     js_value (price_lak out) = Some 135000 \<and>
     js_value (shipping_lak out) = Some 27000 \<and>
     js_value (total_lak out) = Some 169000 \<and>
     js_value (rate_profit_lak out) = Some 6000 \<and>
     js_value (net_profit_lak out) = Some 10000"
proof -
  have "js_value (price_lak scenario_out) = Some 135000"
    and "js_value (shipping_lak scenario_out) = Some 27000"
    and "js_value (total_lak scenario_out) = Some 169000"
    and "js_value (rate_profit_lak scenario_out) = Some 6000"
    and "js_value (net_profit_lak scenario_out) = Some 10000"
    by (simp_all add: scenario_out_def num_simps)
  with computeTotals_scenario show ?thesis by blast
qed




text \<open>
  C3, as amended. For every input and every base rate on which the pricing function
  returns, \<open>total_lak\<close> is the value of
  \<open>price_lak + shipping_lak + service_fee_lak + th_to_la_charge_lak\<close>, the sum taken in this
  order over the fields of the output, whose two fee fields are the coerced fee fields of
  the input; and \<open>total_lak ==\<close> that sum holds exactly when \<open>total_lak\<close> is not NaN.
\<close>

theorem total_lak_additive:
  assumes "computeTotals payload baseRate = Inr out"
  shows "total_lak out =
           js_add (js_add (js_add (price_lak out) (shipping_lak out)) (service_fee_lak out))
                  (th_to_la_charge_lak out) \<and>
         js_eq (total_lak out)
               (js_add (js_add (js_add (price_lak out) (shipping_lak out)) (service_fee_lak out))
                       (th_to_la_charge_lak out)) = (total_lak out \<noteq> NaN) \<and>
         Number (js_or (field payload ''service_fee_lak'') (JNum (to_double 0))) =
           Inr (service_fee_lak out) \<and>
         Number (js_or (field payload ''th_to_la_charge_lak'') (JNum (to_double 0))) =
           Inr (th_to_la_charge_lak out)"
proof -
  note f = computeTotals_fields [OF assms]
  have "js_eq (total_lak out)
               (js_add (js_add (js_add (price_lak out) (shipping_lak out)) (service_fee_lak out))
                       (th_to_la_charge_lak out)) = (total_lak out \<noteq> NaN)"
    by (simp only: f(9) [symmetric] js_eq_self)
  with f(9) f(3) f(4) show ?thesis by blast
qed

text \<open>C3 at the scenario, where the total is a number and the comparison holds.\<close>

theorem total_lak_additive_witness:
  "computeTotals scenario (to_double 1300) = Inr scenario_out \<and>
   total_lak scenario_out =
     js_add (js_add (js_add (price_lak scenario_out) (shipping_lak scenario_out))
                    (service_fee_lak scenario_out))
            (th_to_la_charge_lak scenario_out) \<and>
   total_lak scenario_out \<noteq> NaN \<and>
   js_eq (total_lak scenario_out)
     (js_add (js_add (js_add (price_lak scenario_out) (shipping_lak scenario_out))
                     (service_fee_lak scenario_out))
             (th_to_la_charge_lak scenario_out))"
proof -
  note w = total_lak_additive [OF computeTotals_scenario]
  have n: "total_lak scenario_out \<noteq> NaN"
    by (simp add: scenario_out_def)
  from w n computeTotals_scenario show ?thesis by blast
qed

text \<open>
  C3 as stated fails: with \<open>price_thb = "abc"\<close> the pricing function returns, \<open>total_lak\<close> is
  NaN, and \<open>total_lak ==\<close> the sum of the parts is false.
\<close>

theorem total_lak_NaN_not_equal:
  "computeTotals garbage (to_double 1300) = Inr (garbage_out (to_double 1300)) \<and>
   total_lak (garbage_out (to_double 1300)) = NaN \<and>
   \<not> js_eq (total_lak (garbage_out (to_double 1300)))
      (js_add (js_add (js_add (price_lak (garbage_out (to_double 1300)))
                              (shipping_lak (garbage_out (to_double 1300))))
                      (service_fee_lak (garbage_out (to_double 1300))))
              (th_to_la_charge_lak (garbage_out (to_double 1300))))"
  by (simp add: computeTotals_garbage garbage_out_def js_eq_def)

text \<open>
  C4, as amended. For every input and every base rate on which the pricing function
  returns, \<open>net_profit_lak\<close> is the value of
  \<open>total_lak - (price_thb * baseRate + shipping_thb * baseRate + actual_th_to_la_cost_lak)\<close>
  over the fields of the output, whose \<open>price_thb\<close>, \<open>shipping_thb\<close> and
  \<open>actual_th_to_la_cost_lak\<close> are the coerced fields of the input; and \<open>net_profit_lak ==\<close>
  that value holds exactly when \<open>net_profit_lak\<close> is not NaN.
\<close>

theorem net_profit_decomposition:
  assumes "computeTotals payload baseRate = Inr out"
  shows "net_profit_lak out =
           js_sub (total_lak out)
                  (js_add (js_add (js_mul (price_thb out) baseRate)
                                  (js_mul (shipping_thb out) baseRate))
                          (actual_th_to_la_cost_lak out)) \<and>
         js_eq (net_profit_lak out)
               (js_sub (total_lak out)
                  (js_add (js_add (js_mul (price_thb out) baseRate)
                                  (js_mul (shipping_thb out) baseRate))
                          (actual_th_to_la_cost_lak out))) = (net_profit_lak out \<noteq> NaN) \<and>
         Number (js_or (field payload ''price_thb'') (JNum (to_double 0))) = Inr (price_thb out) \<and>
         Number (js_or (field payload ''shipping_thb'') (JNum (to_double 0))) =
           Inr (shipping_thb out) \<and>
         Number (js_or (field payload ''actual_th_to_la_cost_lak'') (JNum (to_double 0))) =
           Inr (actual_th_to_la_cost_lak out)"
proof -
  note f = computeTotals_fields [OF assms]
  have "js_eq (net_profit_lak out)
               (js_sub (total_lak out)
                  (js_add (js_add (js_mul (price_thb out) baseRate)
                                  (js_mul (shipping_thb out) baseRate))
                          (actual_th_to_la_cost_lak out))) = (net_profit_lak out \<noteq> NaN)"
    by (simp only: f(11) [symmetric] js_eq_self)
  with f(11) f(1) f(2) f(5) show ?thesis by blast
qed

text \<open>C4 at the scenario, where the net profit is a number and the comparison holds.\<close>

theorem net_profit_decomposition_witness:
  "computeTotals scenario (to_double 1300) = Inr scenario_out \<and>
   net_profit_lak scenario_out \<noteq> NaN \<and>
   js_eq (net_profit_lak scenario_out)
     (js_sub (total_lak scenario_out)
        (js_add (js_add (js_mul (price_thb scenario_out) (to_double 1300))
                        (js_mul (shipping_thb scenario_out) (to_double 1300)))
                (actual_th_to_la_cost_lak scenario_out)))"
proof -
  note w = net_profit_decomposition [OF computeTotals_scenario]
  have n: "net_profit_lak scenario_out \<noteq> NaN"
    by (simp add: scenario_out_def)
  from w n computeTotals_scenario show ?thesis by blast
qed

text \<open>
  C4 as stated fails: with \<open>price_thb = "abc"\<close> the pricing function returns,
  \<open>net_profit_lak\<close> is NaN, and \<open>net_profit_lak ==\<close> the decomposition is false.
\<close>

theorem net_profit_NaN_not_equal:
  "computeTotals garbage (to_double 1300) = Inr (garbage_out (to_double 1300)) \<and>
   net_profit_lak (garbage_out (to_double 1300)) = NaN \<and>
   \<not> js_eq (net_profit_lak (garbage_out (to_double 1300)))
      (js_sub (total_lak (garbage_out (to_double 1300)))
         (js_add (js_add (js_mul (price_thb (garbage_out (to_double 1300))) (to_double 1300))
                         (js_mul (shipping_thb (garbage_out (to_double 1300))) (to_double 1300)))
                 (actual_th_to_la_cost_lak (garbage_out (to_double 1300)))))"
  by (simp add: computeTotals_garbage garbage_out_def js_eq_def)

text \<open>
  C5, as amended. For every input on which the pricing function returns, whose
  \<open>customer_rate\<close> is, as a number, the base rate, a finite number, and whose sum
  \<open>price_thb + shipping_thb\<close> of the coerced amounts is finite (neither NaN nor an
  infinity), \<open>rate_profit_lak\<close> is 0, whatever the amounts and the other fields are.
\<close>

theorem spread_isolation:
  assumes "computeTotals payload (Fin r) = Inr out"
    and "Number (field payload ''customer_rate'') = Inr (Fin r)"
    and "js_add (price_thb out) (shipping_thb out) = Fin z"
  shows "js_value (rate_profit_lak out) = Some 0 \<and> js_eq (rate_profit_lak out) (to_double 0)"
proof -
  have "customer_rate out = Fin r"
    using assms(1,2) by (rule customer_rate_eq)
  then have "rate_profit_lak out = to_double 0"
    using computeTotals_fields(10) [OF assms(1)] assms(3)
    by (simp add: js_sub_self js_mul_zero_right)
  then show ?thesis
    by (simp add: js_eq_def)
qed

text \<open>C5 at an order of 100 and 20 THB whose customer rate is the base rate 1300.\<close>

theorem spread_isolation_witness:
  "computeTotals at_base (Fin (dbl 1300)) = Inr at_base_out \<and>
   Number (field at_base ''customer_rate'') = Inr (Fin (dbl 1300)) \<and>
   js_add (price_thb at_base_out) (shipping_thb at_base_out) = Fin (dbl 120) \<and>
   js_value (rate_profit_lak at_base_out) = Some 0 \<and>
   js_eq (rate_profit_lak at_base_out) (to_double 0)"
proof -
  have e: "to_double 1300 = Fin (dbl 1300)"
    by (simp add: num_simps)
  have h1: "computeTotals at_base (Fin (dbl 1300)) = Inr at_base_out"
    using computeTotals_at_base by (simp only: e)
  have h2: "Number (field at_base ''customer_rate'') = Inr (Fin (dbl 1300))"
    by (simp add: at_base_def field_def num_simps)
  have h3: "js_add (price_thb at_base_out) (shipping_thb at_base_out) = Fin (dbl 120)"
    by (simp add: at_base_out_def num_simps)
  from h1 h2 h3 spread_isolation [OF h1 h2 h3] show ?thesis
    by (intro conjI) blast+
qed

text \<open>
  C5 as stated fails: with \<open>customer_rate\<close> equal to the base rate 1300, \<open>rate_profit_lak\<close>
  is NaN both for \<open>price_thb = "abc"\<close> (the sum of the amounts is NaN) and for
  \<open>price_thb = "Infinity"\<close> (the sum is infinite, and \<open>Infinity * 0\<close> is NaN).
\<close>

theorem spread_isolation_non_finite:
  "computeTotals garbage_at_base (to_double 1300) = Inr (garbage_out (to_double 1300)) \<and>
   Number (field garbage_at_base ''customer_rate'') = Inr (to_double 1300) \<and>
   rate_profit_lak (garbage_out (to_double 1300)) = NaN \<and>
   computeTotals infinite_at_base (to_double 1300) = Inr infinite_at_base_out \<and>
   Number (field infinite_at_base ''customer_rate'') = Inr (to_double 1300) \<and>
   rate_profit_lak infinite_at_base_out = NaN"
proof -
  have a: "Number (field garbage_at_base ''customer_rate'') = Inr (to_double 1300)"
    by (simp add: garbage_at_base_def field_def)
  have b: "rate_profit_lak (garbage_out (to_double 1300)) = NaN"
    by (simp add: garbage_out_def)
  have c: "Number (field infinite_at_base ''customer_rate'') = Inr (to_double 1300)"
    by (simp add: infinite_at_base_def field_def)
  have d: "rate_profit_lak infinite_at_base_out = NaN"
    by (simp add: infinite_at_base_out_def)
  from computeTotals_garbage_at_base a b computeTotals_infinite_at_base c d
  show ?thesis by (intro conjI)
qed

text \<open>
  C6, as amended. For every input with \<open>customer_rate\<close> unset on which the pricing function
  returns at the base rate 0, and whose sum \<open>price_thb + shipping_thb\<close> of the coerced
  amounts is finite: \<open>price_lak\<close>, \<open>shipping_lak\<close> and \<open>rate_profit_lak\<close> are 0,
  \<open>net_profit_lak\<close> is the value of \<open>total_lak - actual_th_to_la_cost_lak\<close>, and
  \<open>net_profit_lak ==\<close> that value holds exactly when \<open>net_profit_lak\<close> is not NaN.
\<close>

theorem zero_rate_invariant:
  assumes "payload ''customer_rate'' = None"
    and "computeTotals payload (to_double 0) = Inr out"
    and "js_add (price_thb out) (shipping_thb out) = Fin z"
  shows "js_value (price_lak out) = Some 0 \<and>
         js_value (shipping_lak out) = Some 0 \<and>
         js_value (rate_profit_lak out) = Some 0 \<and>
         net_profit_lak out = js_sub (total_lak out) (actual_th_to_la_cost_lak out) \<and>
         js_eq (net_profit_lak out) (js_sub (total_lak out) (actual_th_to_la_cost_lak out)) =
           (net_profit_lak out \<noteq> NaN)"
proof -
  note f = computeTotals_fields [OF assms(2)]
  have cr: "customer_rate out = to_double 0"
    using f(6) assms(1) by (simp add: field_def js_or_def)
  from assms(3) obtain x y where xy: "price_thb out = Fin x" "shipping_thb out = Fin y"
    using js_add_finite by blast
  have 1: "price_lak out = to_double 0"
    using f(7) cr xy by (simp add: js_mul_zero_right)
  have 2: "shipping_lak out = to_double 0"
    using f(8) cr xy by (simp add: js_mul_zero_right)
  have 3: "rate_profit_lak out = to_double 0"
    using f(10) cr assms(3) by (simp add: to_double_0 js_sub_self js_mul_zero_right)
  have 4: "net_profit_lak out = js_sub (total_lak out) (actual_th_to_la_cost_lak out)"
    using f(11) xy by (simp add: js_mul_zero_right js_add_zero_left)
  have 5: "js_eq (net_profit_lak out) (js_sub (total_lak out) (actual_th_to_la_cost_lak out)) =
           (net_profit_lak out \<noteq> NaN)"
    by (simp only: 4 [symmetric] js_eq_self)
  from 1 2 3 4 5 show ?thesis by simp
qed

text \<open>C6 at an order of 100 and 20 THB with fees and no customer rate.\<close>

theorem zero_rate_invariant_witness:
  "no_rate ''customer_rate'' = None \<and>
   computeTotals no_rate (to_double 0) = Inr no_rate_out \<and>
   js_add (price_thb no_rate_out) (shipping_thb no_rate_out) = Fin (dbl 120) \<and>
   js_value (price_lak no_rate_out) = Some 0 \<and>
   js_value (shipping_lak no_rate_out) = Some 0 \<and>
   js_value (rate_profit_lak no_rate_out) = Some 0 \<and>
   net_profit_lak no_rate_out \<noteq> NaN \<and>
   js_eq (net_profit_lak no_rate_out)
     (js_sub (total_lak no_rate_out) (actual_th_to_la_cost_lak no_rate_out))"
proof -
  have h1: "no_rate ''customer_rate'' = None"
    by (simp add: no_rate_def)
  have h3: "js_add (price_thb no_rate_out) (shipping_thb no_rate_out) = Fin (dbl 120)"
    by (simp add: no_rate_out_def num_simps)
  have n: "net_profit_lak no_rate_out \<noteq> NaN"
    by (simp add: no_rate_out_def)
  from h1 h3 n computeTotals_no_rate zero_rate_invariant [OF h1 computeTotals_no_rate h3]
  show ?thesis by (intro conjI) blast+
qed

text \<open>
  C6 as stated fails: with \<open>customer_rate\<close> unset and the base rate 0, \<open>price_lak\<close> and
  \<open>rate_profit_lak\<close> are NaN both for \<open>price_thb = "abc"\<close> and for \<open>price_thb = "Infinity"\<close>.
\<close>

theorem zero_rate_non_finite:
  "garbage ''customer_rate'' = None \<and>
   computeTotals garbage (to_double 0) = Inr (garbage_out (to_double 0)) \<and>
   price_lak (garbage_out (to_double 0)) = NaN \<and>
   rate_profit_lak (garbage_out (to_double 0)) = NaN \<and>
   infinite_price ''customer_rate'' = None \<and>
   computeTotals infinite_price (to_double 0) = Inr infinite_price_out \<and>
   price_lak infinite_price_out = NaN \<and>
   rate_profit_lak infinite_price_out = NaN"
proof -
  have a: "garbage ''customer_rate'' = None"
    by (simp add: garbage_def)
  have b: "price_lak (garbage_out (to_double 0)) = NaN"
    and c: "rate_profit_lak (garbage_out (to_double 0)) = NaN"
    by (simp_all add: garbage_out_def)
  have d: "infinite_price ''customer_rate'' = None"
    by (simp add: infinite_price_def)
  have e: "price_lak infinite_price_out = NaN"
    and f: "rate_profit_lak infinite_price_out = NaN"
    by (simp_all add: infinite_price_out_def)
  from a computeTotals_garbage_zero b c d computeTotals_infinite_price e f
  show ?thesis by (intro conjI)
qed

text \<open>
  C7, as amended. On every input on which the pricing function returns, \<open>customerRate\<close> is
  the base rate when the input's \<open>customer_rate\<close> is omitted or falsy (null, false, 0, NaN,
  the empty string), and \<open>Number(customer_rate)\<close> when it is truthy; and that \<open>customerRate\<close>
  is the rate used in all derived fields: \<open>price_lak\<close>, \<open>shipping_lak\<close>, \<open>total_lak\<close>,
  \<open>rate_profit_lak\<close> and \<open>net_profit_lak\<close>.
\<close>

theorem customer_rate_or_base:
  assumes "computeTotals payload baseRate = Inr out"
  shows "(if ToBoolean (field payload ''customer_rate'')
          then Number (field payload ''customer_rate'') else Inr baseRate) =
           Inr (customer_rate out) \<and>
         price_lak out = js_mul (price_thb out) (customer_rate out) \<and>
         shipping_lak out = js_mul (shipping_thb out) (customer_rate out) \<and>
         total_lak out =
           js_add (js_add (js_add (js_mul (price_thb out) (customer_rate out))
                                  (js_mul (shipping_thb out) (customer_rate out)))
                          (service_fee_lak out))
                  (th_to_la_charge_lak out) \<and>
         rate_profit_lak out =
           js_mul (js_add (price_thb out) (shipping_thb out))
                  (js_sub (customer_rate out) baseRate) \<and>
         net_profit_lak out =
           js_sub (js_add (js_add (js_add (js_mul (price_thb out) (customer_rate out))
                                          (js_mul (shipping_thb out) (customer_rate out)))
                                  (service_fee_lak out))
                          (th_to_la_charge_lak out))
                  (js_add (js_add (js_mul (price_thb out) baseRate)
                                  (js_mul (shipping_thb out) baseRate))
                          (actual_th_to_la_cost_lak out))"
proof -
  note f = computeTotals_fields [OF assms]
  have c: "(if ToBoolean (field payload ''customer_rate'')
          then Number (field payload ''customer_rate'') else Inr baseRate) =
           Inr (customer_rate out)"
    using f(6) by (simp add: js_or_def split: if_splits)
  have t: "total_lak out =
           js_add (js_add (js_add (js_mul (price_thb out) (customer_rate out))
                                  (js_mul (shipping_thb out) (customer_rate out)))
                          (service_fee_lak out))
                  (th_to_la_charge_lak out)"
    using f(9) by (simp only: f(7) [symmetric] f(8) [symmetric])
  have n: "net_profit_lak out =
           js_sub (js_add (js_add (js_add (js_mul (price_thb out) (customer_rate out))
                                          (js_mul (shipping_thb out) (customer_rate out)))
                                  (service_fee_lak out))
                          (th_to_la_charge_lak out))
                  (js_add (js_add (js_mul (price_thb out) baseRate)
                                  (js_mul (shipping_thb out) baseRate))
                          (actual_th_to_la_cost_lak out))"
    using f(11) by (simp only: t [symmetric])
  from c f(7) f(8) t f(10) n show ?thesis by blast
qed

text \<open>C7 at the scenario, whose customer rate 1350 is supplied and used.\<close>

theorem customer_rate_or_base_witness:
  "computeTotals scenario (to_double 1300) = Inr scenario_out \<and>
   ToBoolean (field scenario ''customer_rate'') \<and>
   Number (field scenario ''customer_rate'') = Inr (customer_rate scenario_out) \<and>
   js_value (customer_rate scenario_out) = Some 1350 \<and>
   total_lak scenario_out =
     js_add (js_add (js_add (js_mul (price_thb scenario_out) (customer_rate scenario_out))
                            (js_mul (shipping_thb scenario_out) (customer_rate scenario_out)))
                    (service_fee_lak scenario_out))
            (th_to_la_charge_lak scenario_out)"
proof -
  note w = customer_rate_or_base [OF computeTotals_scenario]
  have t: "ToBoolean (field scenario ''customer_rate'')"
    by (simp add: scenario_def field_def num_simps)
  have v: "js_value (customer_rate scenario_out) = Some 1350"
    by (simp add: scenario_out_def num_simps)
  from w t have "Number (field scenario ''customer_rate'') = Inr (customer_rate scenario_out)"
    by simp
  with w t v computeTotals_scenario show ?thesis by blast
qed

text \<open>
  C7 as stated fails: with \<open>customer_rate = 0\<close> supplied and the base rate 1300, the
  \<open>customerRate\<close> used is 1300 and \<open>price_lak\<close> is \<open>100 * 1300\<close>.
\<close>

theorem supplied_zero_rate_ignored:
  "zero_rate ''customer_rate'' = Some (JNum (to_double 0)) \<and>
   computeTotals zero_rate (to_double 1300) = Inr zero_rate_out \<and>
   js_value (customer_rate zero_rate_out) = Some 1300 \<and>
   js_value (price_lak zero_rate_out) = Some 130000"
proof -
  have a: "zero_rate ''customer_rate'' = Some (JNum (to_double 0))"
    by (simp add: zero_rate_def)
  have b: "js_value (customer_rate zero_rate_out) = Some 1300"
    and c: "js_value (price_lak zero_rate_out) = Some 130000"
    by (simp_all add: zero_rate_out_def num_simps)
  from a computeTotals_zero_rate b c show ?thesis by (intro conjI)
qed

section \<open>The handlers on rows matched by an id\<close>


lemma getBaseRate_failed:
  assumes "failure d SelectSettings = Some m"
  shows "getBaseRate d = Inl (StorageFailure m)"
  using assms by (simp add: getBaseRate_def select_settings_def query_def and_then_def)

lemma getBaseRate_db_one: "getBaseRate db_one = Inr (to_double 1300)"
  by (simp add: getBaseRate_def select_settings_def query_def and_then_def db_one_def
      settings_1300_def Number_def StringToNumber_1300)






lemma no_match_filter: "i \<notin> fst ` set rows \<Longrightarrow> filter (\<lambda>r. fst r = i) rows = []"
  by (auto simp: filter_empty_conv)

lemma no_match_map:
  "i \<notin> fst ` set rows \<Longrightarrow> map (\<lambda>r. if fst r = i then (i, p) else r) rows = rows"
  by (induction rows) auto

lemma no_match_keep: "i \<notin> fst ` set rows \<Longrightarrow> filter (\<lambda>r. fst r \<noteq> i) rows = rows"
  by (induction rows) auto


lemma put_order_missing:
  assumes "getBaseRate d = Inr b"
    and "computeTotals body b = Inr priced"
    and "failure d (UpdateOrders i (order_of now body b priced)) = None"
    and "i \<notin> fst ` set (orders d)"
  shows "put_order now i body d = (Response 404 (ErrorJson ''Not found''), d)"
  using assms
  by (simp add: put_order_def update_orders_def query_def Let_def no_match_filter no_match_map)

lemma put_order_throws:
  assumes "getBaseRate d = Inr b" and "computeTotals body b = Inl e"
  shows "put_order now i body d = (Response 500 (ErrorJson (message e)), d)"
  using assms by (simp add: put_order_def)

lemma run_queries_empty:
  assumes "\<forall>k ps. failure d (SelectAggregate k ps) = None" and "orders d = []"
  shows "run_queries today year month d =
           Inr [JNull, JNull, JNull, JNum (to_double 0), JNull, JNull,
                JNum (to_double 0), JNum (to_double 0), JNum (to_double 0), JNull, JNull]"
  using assms
  by (simp add: run_queries_def select_sum_def select_count_def query_def sql_sum_def)

section \<open>Properties of the handlers\<close>





text \<open>
  C9, as amended. For every id that no row of the order store has: the delete of that id
  matches zero rows, answers 404 \<open>Not found\<close> and leaves the store as it was when the
  storage answers, and answers 500 with the message when the storage fails; the update of
  that id matches zero rows, answers 404 \<open>Not found\<close> and leaves the store as it was when
  the base rate is read, the pricing function returns for the body and the storage answers
  the write; it answers 500 with the message, and leaves the store as it was, when the
  write fails, when the pricing function throws, and when the base rate cannot be read.
\<close>

theorem missing_id_not_found:
  assumes "i \<notin> fst ` set (orders d)"
  shows "(failure d (DeleteOrders i) = None \<longrightarrow>
            delete_orders i d = Inr (0, d) \<and>
            delete_order i d = (Response 404 (ErrorJson ''Not found''), d)) \<and>
         (failure d (DeleteOrders i) = Some m \<longrightarrow>
            delete_order i d = (Response 500 (ErrorJson m), d)) \<and>
         (getBaseRate d = Inr b \<and> computeTotals body b = Inr priced \<and>
          failure d (UpdateOrders i (order_of now body b priced)) = None \<longrightarrow>
            update_orders i (order_of now body b priced) d = Inr (0, d) \<and>
            put_order now i body d = (Response 404 (ErrorJson ''Not found''), d)) \<and>
         (getBaseRate d = Inr b \<and> computeTotals body b = Inr priced \<and>
          failure d (UpdateOrders i (order_of now body b priced)) = Some m \<longrightarrow>
            put_order now i body d = (Response 500 (ErrorJson m), d)) \<and>
         (getBaseRate d = Inr b \<and> computeTotals body b = Inl e \<longrightarrow>
            put_order now i body d = (Response 500 (ErrorJson (message e)), d)) \<and>
         (getBaseRate d = Inl e \<longrightarrow>
            put_order now i body d = (Response 500 (ErrorJson (message e)), d))"
proof -
  have 1: "delete_orders i d = Inr (0, d) \<and>
           delete_order i d = (Response 404 (ErrorJson ''Not found''), d)"
    if "failure d (DeleteOrders i) = None"
    using assms that
    by (simp add: delete_order_def delete_orders_def query_def no_match_filter no_match_keep)
  have 2: "delete_order i d = (Response 500 (ErrorJson m), d)"
    if "failure d (DeleteOrders i) = Some m"
    using that by (simp add: delete_order_def delete_orders_def query_def)
  have 3: "update_orders i (order_of now body b priced) d = Inr (0, d) \<and>
           put_order now i body d = (Response 404 (ErrorJson ''Not found''), d)"
    if "getBaseRate d = Inr b" "computeTotals body b = Inr priced"
       "failure d (UpdateOrders i (order_of now body b priced)) = None"
    using assms that
    by (simp add: put_order_def update_orders_def query_def Let_def no_match_filter no_match_map)
  have 4: "put_order now i body d = (Response 500 (ErrorJson m), d)"
    if "getBaseRate d = Inr b" "computeTotals body b = Inr priced"
       "failure d (UpdateOrders i (order_of now body b priced)) = Some m"
    using that by (simp add: put_order_def update_orders_def query_def Let_def)
  have 5: "put_order now i body d = (Response 500 (ErrorJson (message e)), d)"
    if "getBaseRate d = Inr b" "computeTotals body b = Inl e"
    using that by (simp add: put_order_def)
  have 6: "put_order now i body d = (Response 500 (ErrorJson (message e)), d)"
    if "getBaseRate d = Inl e"
    using that by (simp add: put_order_def)
  from 1 2 3 4 5 6 show ?thesis by blast
qed

text \<open>C9 at the id 8, which the store does not have, with the storage up and down.\<close>

theorem missing_id_not_found_witness:
  "8 \<notin> fst ` set (orders db_one) \<and>
   failure db_one (DeleteOrders 8) = None \<and>
   delete_orders 8 db_one = Inr (0, db_one) \<and>
   delete_order 8 db_one = (Response 404 (ErrorJson ''Not found''), db_one) \<and>
   getBaseRate db_one = Inr (to_double 1300) \<and>
   computeTotals scenario (to_double 1300) = Inr scenario_out \<and>
   failure db_one
     (UpdateOrders 8 (order_of ''2024-02-02'' scenario (to_double 1300) scenario_out)) = None \<and>
   put_order ''2024-02-02'' 8 scenario db_one =
     (Response 404 (ErrorJson ''Not found''), db_one) \<and>
   8 \<notin> fst ` set (orders db_down) \<and>
   failure db_down (DeleteOrders 8) = Some ''connect ECONNREFUSED'' \<and>
   delete_order 8 db_down = (Response 500 (ErrorJson ''connect ECONNREFUSED''), db_down) \<and>
   getBaseRate db_down = Inl (StorageFailure ''connect ECONNREFUSED'') \<and>
   put_order ''2024-02-02'' 8 scenario db_down =
     (Response 500 (ErrorJson ''connect ECONNREFUSED''), db_down)"
proof -
  have h1: "8 \<notin> fst ` set (orders db_one)"
    by (simp add: db_one_def)
  have h2: "8 \<notin> fst ` set (orders db_down)"
    by (simp add: db_down_def db_one_def)
  have f1: "failure db_one (DeleteOrders 8) = None"
    by (simp add: db_one_def)
  have u1: "failure db_one
     (UpdateOrders 8 (order_of ''2024-02-02'' scenario (to_double 1300) scenario_out)) = None"
    by (simp add: db_one_def)
  have f2: "failure db_down (DeleteOrders 8) = Some ''connect ECONNREFUSED''"
    by (simp add: db_down_def)
  have g2: "getBaseRate db_down = Inl (StorageFailure ''connect ECONNREFUSED'')"
    by (rule getBaseRate_failed) (simp add: db_down_def)
  note w1 = missing_id_not_found[OF h1,
      where now = "''2024-02-02''" and body = scenario and b = "to_double 1300"
        and priced = scenario_out and m = undefined and e = undefined]
  note w2 = missing_id_not_found[OF h2,
      where now = "''2024-02-02''" and body = scenario and b = undefined
        and priced = undefined and m = "''connect ECONNREFUSED''"
        and e = "StorageFailure ''connect ECONNREFUSED''"]
  have a: "delete_orders 8 db_one = Inr (0, db_one) \<and>
           delete_order 8 db_one = (Response 404 (ErrorJson ''Not found''), db_one)"
    using w1 f1 by blast
  have b: "put_order ''2024-02-02'' 8 scenario db_one =
             (Response 404 (ErrorJson ''Not found''), db_one)"
    using w1 getBaseRate_db_one computeTotals_scenario u1 by blast
  have c: "delete_order 8 db_down = (Response 500 (ErrorJson ''connect ECONNREFUSED''), db_down)"
    using w2 f2 by blast
  have d: "put_order ''2024-02-02'' 8 scenario db_down =
             (Response 500 (ErrorJson ''connect ECONNREFUSED''), db_down)"
    using w2 g2 by simp
  from h1 f1 a getBaseRate_db_one computeTotals_scenario u1 b h2 f2 c g2 d
  show ?thesis by (intro conjI) blast+
qed

text \<open>
  C9 as stated fails: the update of the id 8, which the store does not have, with a body
  whose \<open>price_thb\<close> is an object with an own property \<open>toString\<close> is answered with status
  500, not 404, although the storage answers.
\<close>

theorem missing_id_update_throwing:
  "8 \<notin> fst ` set (orders db_one) \<and>
   getBaseRate db_one = Inr (to_double 1300) \<and>
   put_order ''2024-02-02'' 8 throwing db_one =
     (Response 500 (ErrorJson cannot_convert), db_one)"
proof -
  have a: "8 \<notin> fst ` set (orders db_one)"
    by (simp add: db_one_def)
  have c: "put_order ''2024-02-02'' 8 throwing db_one =
     (Response 500 (ErrorJson cannot_convert), db_one)"
    using put_order_throws[OF getBaseRate_db_one computeTotals_throwing] by simp
  from a getBaseRate_db_one c show ?thesis by (intro conjI)
qed

lemma js_sub_zero: "js_sub (to_double 0) (to_double 0) = to_double 0"
  by (simp add: to_double_0 js_sub_self)

lemma summarize_empty:
  assumes "failure d SelectSettings = None"
    and "\<forall>k ps. failure d (SelectAggregate k ps) = None"
    and "orders d = []"
  shows "summarize now qdate d =
     Inr \<lparr> date = (case qdate of None \<Rightarrow> now | Some s \<Rightarrow> if s \<noteq> [] then s else now),
           summary_rate =
             (case filter (\<lambda>r. settings_id r = 1) (settings d) of
                [] \<Rightarrow> JNum (to_double 0)
              | r # _ \<Rightarrow> if exchange_rate r = JUndefined then JNum (to_double 0)
                         else exchange_rate r),
           rate_updated =
             (case filter (\<lambda>r. settings_id r = 1) (settings d) of
                [] \<Rightarrow> JNull
              | r # _ \<Rightarrow> if updated_at r = JUndefined then JNull else updated_at r),
           today_total_lak = to_double 0, today_profit_total = to_double 0,
           today_rate_profit = to_double 0, today_other_profit = to_double 0,
           today_orders_count = to_double 0,
           month_total_lak = to_double 0, month_profit_total = to_double 0,
           month_period =
             take 4 (case qdate of None \<Rightarrow> now | Some s \<Rightarrow> if s \<noteq> [] then s else now) @ ''-'' @
             take 2 (drop 5 (case qdate of None \<Rightarrow> now | Some s \<Rightarrow> if s \<noteq> [] then s else now)),
           paid_orders = to_double 0, unpaid_orders = to_double 0,
           unpaid_value_lak = to_double 0,
           gross_value_lak = to_double 0, all_orders_count = to_double 0 \<rparr>"
proof -
  have q: "run_queries today year month d =
           Inr [JNull, JNull, JNull, JNum (to_double 0), JNull, JNull,
                JNum (to_double 0), JNum (to_double 0), JNum (to_double 0), JNull, JNull]"
    for today year month
    using assms(2,3) by (rule run_queries_empty)
  show ?thesis
    using assms(1)
    by (simp add: summarize_def q Let_def js_sub_zero js_default_def js_or_def
        select_settings_def query_def split: list.splits)
qed

text \<open>
  C10, as amended. When the order store is empty and the storage answers, the summary is
  returned with status 200 and every sum (\<open>today.total_lak\<close>, \<open>today.profit_total\<close>,
  \<open>today.rate_profit\<close>, \<open>today.other_profit\<close>, \<open>month.total_lak\<close>, \<open>month.profit_total\<close>,
  \<open>payments.unpaid_value_lak\<close>, \<open>gross_value_lak\<close>) and every count
  (\<open>today.orders_count\<close>, \<open>payments.paid_orders\<close>, \<open>payments.unpaid_orders\<close>,
  \<open>all_orders_count\<close>) is the number 0, never null or absent. The fields \<open>rate\<close> and
  \<open>rate_updated\<close> are the \<open>exchange_rate\<close> and the \<open>updated_at\<close> of the settings row with
  id 1 as they are stored, 0 and null where the row holds undefined for them; without that
  row \<open>rate\<close> is 0 and \<open>rate_updated\<close> is null.
\<close>

theorem empty_store_summary:
  assumes "failure d SelectSettings = None"
    and "\<forall>k ps. failure d (SelectAggregate k ps) = None"
    and "orders d = []"
  shows "\<exists>s. summarize now qdate d = Inr s \<and>
           get_stats_summary now qdate d = Response 200 (SummaryJson s) \<and>
           js_value (today_total_lak s) = Some 0 \<and> js_value (today_profit_total s) = Some 0 \<and>
           js_value (today_rate_profit s) = Some 0 \<and> js_value (today_other_profit s) = Some 0 \<and>
           js_value (month_total_lak s) = Some 0 \<and> js_value (month_profit_total s) = Some 0 \<and>
           js_value (unpaid_value_lak s) = Some 0 \<and> js_value (gross_value_lak s) = Some 0 \<and>
           js_value (today_orders_count s) = Some 0 \<and> js_value (paid_orders s) = Some 0 \<and>
           js_value (unpaid_orders s) = Some 0 \<and> js_value (all_orders_count s) = Some 0 \<and>
           summary_rate s =
             (case filter (\<lambda>r. settings_id r = 1) (settings d) of
                [] \<Rightarrow> JNum (to_double 0)
              | r # _ \<Rightarrow> if exchange_rate r = JUndefined then JNum (to_double 0)
                         else exchange_rate r) \<and>
           rate_updated s =
             (case filter (\<lambda>r. settings_id r = 1) (settings d) of
                [] \<Rightarrow> JNull
              | r # _ \<Rightarrow> if updated_at r = JUndefined then JNull else updated_at r)"
  by (simp add: get_stats_summary_def summarize_empty [OF assms])

text \<open>C10 at a store with the settings row and no order.\<close>

theorem empty_store_summary_witness:
  "failure db_settings SelectSettings = None \<and>
   (\<forall>k ps. failure db_settings (SelectAggregate k ps) = None) \<and>
   orders db_settings = [] \<and>
   (\<exists>s. summarize ''2024-02-02'' None db_settings = Inr s \<and>
        js_value (today_total_lak s) = Some 0 \<and> js_value (all_orders_count s) = Some 0 \<and>
        js_value (gross_value_lak s) = Some 0 \<and>
        summary_rate s = JStr ''1300.00'' \<and> rate_updated s = JStr ''2024-01-10 08:00:00'')"
proof -
  have h1: "failure db_settings SelectSettings = None"
    by (simp add: db_settings_def)
  have h2: "\<forall>k ps. failure db_settings (SelectAggregate k ps) = None"
    by (simp add: db_settings_def)
  have h3: "orders db_settings = []"
    by (simp add: db_settings_def)
  have r: "(case filter (\<lambda>r. settings_id r = 1) (settings db_settings) of
                [] \<Rightarrow> JNum (to_double 0)
              | r # _ \<Rightarrow> if exchange_rate r = JUndefined then JNum (to_double 0)
                         else exchange_rate r) = JStr ''1300.00''"
    by (simp add: db_settings_def settings_1300_def)
  have u: "(case filter (\<lambda>r. settings_id r = 1) (settings db_settings) of
                [] \<Rightarrow> JNull
              | r # _ \<Rightarrow> if updated_at r = JUndefined then JNull else updated_at r) =
             JStr ''2024-01-10 08:00:00''"
    by (simp add: db_settings_def settings_1300_def)
  from empty_store_summary[OF h1 h2 h3, of "''2024-02-02''" None] obtain s where
    "summarize ''2024-02-02'' None db_settings = Inr s"
    "js_value (today_total_lak s) = Some 0" "js_value (all_orders_count s) = Some 0"
    "js_value (gross_value_lak s) = Some 0"
    "summary_rate s = (case filter (\<lambda>r. settings_id r = 1) (settings db_settings) of
                [] \<Rightarrow> JNum (to_double 0)
              | r # _ \<Rightarrow> if exchange_rate r = JUndefined then JNum (to_double 0)
                         else exchange_rate r)"
    "rate_updated s = (case filter (\<lambda>r. settings_id r = 1) (settings db_settings) of
                [] \<Rightarrow> JNull
              | r # _ \<Rightarrow> if updated_at r = JUndefined then JNull else updated_at r)"
    by blast
  with h1 h2 h3 r u show ?thesis by (intro conjI exI [of _ s]) simp_all
qed

text \<open>
  C10 as stated fails: with no order and no settings row, the field \<open>rate_updated\<close> of the
  summary is null.
\<close>

theorem empty_store_rate_updated_null:
  "summarize ''2024-01-15'' None empty_db =
     Inr \<lparr> date = ''2024-01-15'', summary_rate = JNum (to_double 0), rate_updated = JNull,
           today_total_lak = to_double 0, today_profit_total = to_double 0,
           today_rate_profit = to_double 0, today_other_profit = to_double 0,
           today_orders_count = to_double 0,
           month_total_lak = to_double 0, month_profit_total = to_double 0,
           month_period = ''2024-01'',
           paid_orders = to_double 0, unpaid_orders = to_double 0,
           unpaid_value_lak = to_double 0,
           gross_value_lak = to_double 0, all_orders_count = to_double 0 \<rparr>"
proof -
  have h1: "failure empty_db SelectSettings = None"
    by (simp add: empty_db_def)
  have h2: "\<forall>k ps. failure empty_db (SelectAggregate k ps) = None"
    by (simp add: empty_db_def)
  have h3: "orders empty_db = []"
    by (simp add: empty_db_def)
  have s: "settings empty_db = []"
    by (simp add: empty_db_def)
  show ?thesis
    by (simp add: summarize_empty [OF h1 h2 h3] s)
qed

end
